theory Spec2Isabelle
  imports Main
begin

section \<open>Data model (backend/models.py)\<close>

text \<open>
  Strings are Python \<open>str\<close> values restricted to the characters of \<^typ>\<open>char\<close>;
  \<open>datetime\<close> values are readings of a clock, modelled as natural numbers of ticks;
  a \<open>uuid4\<close> identity is a string supplied by the caller.
\<close>

type_synonym datetime = nat

datatype DeviceType = ROUTER | SWITCH | SERVER | WORKSTATION | MOBILE | IOT | PRINTER | UNKNOWN

datatype ThreatLevel = CRITICAL | HIGH | MEDIUM | LOW | INFO

datatype ScanType = NETWORK_DISCOVERY | VULNERABILITY_SCAN | PORT_SCAN | SMB_SCAN | AD_SCAN

datatype ScanStatus = PENDING | RUNNING | COMPLETED | FAILED | CANCELLED

text \<open>The entry of \<open>services\<close> that \<open>port_scan_device\<close> builds for one open port.\<close>

record service_info =
  svc_port :: int
  svc_protocol :: string
  svc_state :: string
  svc_name :: string
  svc_product :: string
  svc_version :: string
  svc_extrainfo :: string

record Device =
  dev_id :: string
  ip_address :: string
  mac_address :: "string option"
  hostname :: "string option"
  device_type :: DeviceType
  os_name :: "string option"
  os_version :: "string option"
  vendor :: "string option"
  open_ports :: "int list"
  services :: "(string \<times> service_info) list"
  last_seen :: datetime
  first_discovered :: datetime
  is_active :: bool
  created_at :: datetime
  updated_at :: datetime

section \<open>Python string helpers\<close>

text \<open>\<open>str.lower\<close> on the ASCII letters.\<close>

definition lower_char :: "char \<Rightarrow> char" where
  "lower_char c =
     (let n = (of_char c :: nat) in if 65 \<le> n \<and> n \<le> 90 then char_of (n + 32) else c)"

definition lower :: "string \<Rightarrow> string" where
  "lower s = map lower_char s"

fun startswith :: "string \<Rightarrow> string \<Rightarrow> bool" where
  "startswith s [] = True"
| "startswith [] (p # ps) = False"
| "startswith (c # cs) (p # ps) = (c = p \<and> startswith cs ps)"

text \<open>\<open>sub in s\<close> for two strings: \<open>sub\<close> occurs in \<open>s\<close> as a contiguous run.\<close>

fun str_contains :: "string \<Rightarrow> string \<Rightarrow> bool" where
  "str_contains sub [] = (sub = [])"
| "str_contains sub (c # cs) = (startswith (c # cs) sub \<or> str_contains sub cs)"

section \<open>Device classification (NetworkScanner._classify_device_type)\<close>

text \<open>\<open>any(port in open_ports for port in sig)\<close> with \<open>open_ports = set(device.open_ports)\<close>.\<close>

definition any_port_in :: "int list \<Rightarrow> int list \<Rightarrow> bool" where
  "any_port_in sig ports = list_ex (\<lambda>port. port \<in> set ports) sig"

definition router_ports :: "int list" where
  "router_ports = [23, 80, 443, 161, 22]"

definition server_ports :: "int list" where
  "server_ports = [80, 443, 22, 21, 25, 53, 110, 143, 993, 995]"

definition printer_ports :: "int list" where
  "printer_ports = [515, 631, 9100]"

definition workstation_ports :: "int list" where
  "workstation_ports = [135, 139, 445, 3389]"

text \<open>
  \<open>device.hostname and 'router' in device.hostname.lower()\<close>: \<open>None\<close> and the empty
  string are falsy.
\<close>

definition router_hostname :: "string option \<Rightarrow> bool" where
  "router_hostname h =
     (case h of None \<Rightarrow> False | Some n \<Rightarrow> n \<noteq> [] \<and> str_contains ''router'' (lower n))"

definition classify_device_type :: "'a Device_scheme \<Rightarrow> DeviceType" where
  "classify_device_type device =
     (if any_port_in router_ports (open_ports device) \<and> router_hostname (hostname device)
        then ROUTER
      else if any_port_in server_ports (open_ports device) then SERVER
      else if any_port_in printer_ports (open_ports device) then PRINTER
      else if 161 \<in> set (open_ports device)
              \<and> \<not> (80 \<in> set (open_ports device) \<or> 443 \<in> set (open_ports device))
        then SWITCH
      else if any_port_in workstation_ports (open_ports device) then WORKSTATION
      else UNKNOWN)"

text \<open>
  \<open>Device(ip_address=ip, first_discovered=now, last_seen=now)\<close> with the defaults of the
  model class; \<open>uid\<close> is the fresh \<open>uuid4\<close>, and \<open>now\<close> stands for the clock readings
  taken while the object is built, which are taken to be one instant.
\<close>

definition new_device :: "string \<Rightarrow> string \<Rightarrow> datetime \<Rightarrow> Device" where
  "new_device uid ip now =
     \<lparr> dev_id = uid, ip_address = ip, mac_address = None, hostname = None,
       device_type = UNKNOWN, os_name = None, os_version = None, vendor = None,
       open_ports = [], services = [], last_seen = now, first_discovered = now,
       is_active = True, created_at = now, updated_at = now \<rparr>"

section \<open>Target parsing (NetworkScanner._parse_target)\<close>

subsection \<open>Python's \<open>int(str)\<close> and \<open>str(int)\<close> in base ten\<close>

definition is_space :: "char \<Rightarrow> bool" where
  "is_space c = (let n = (of_char c :: nat) in (9 \<le> n \<and> n \<le> 13) \<or> (28 \<le> n \<and> n \<le> 32))"

definition is_digit :: "char \<Rightarrow> bool" where
  "is_digit c = (let n = (of_char c :: nat) in 48 \<le> n \<and> n \<le> 57)"

definition digit_val :: "char \<Rightarrow> nat" where
  "digit_val c = of_char c - 48"

definition digit_char :: "nat \<Rightarrow> char" where
  "digit_char k = char_of (48 + k)"

definition strip :: "string \<Rightarrow> string" where
  "strip s = rev (dropWhile is_space (rev (dropWhile is_space s)))"

text \<open>
  The digit part of an integer literal: at least one digit, and single underscores only
  between two digits. \<open>prev\<close> tells whether the previous character was a digit.
\<close>

fun int_digits :: "nat \<Rightarrow> bool \<Rightarrow> string \<Rightarrow> nat option" where
  "int_digits acc prev [] = (if prev then Some acc else None)"
| "int_digits acc prev (c # cs) =
     (if is_digit c then int_digits (10 * acc + digit_val c) True cs
      else if c = CHR ''_'' \<and> prev then int_digits acc False cs
      else None)"

text \<open>
  \<open>int(s)\<close>: surrounding whitespace is dropped, one sign is allowed; \<open>None\<close> is the
  \<open>ValueError\<close>. The interpreter's configurable limit on the number of digits is not
  part of the model.
\<close>

definition int_py :: "string \<Rightarrow> int option" where
  "int_py s =
     (case strip s of
        [] \<Rightarrow> None
      | c # cs \<Rightarrow>
          if c = CHR ''-'' then map_option (\<lambda>n. - int n) (int_digits 0 False cs)
          else if c = CHR ''+'' then map_option int (int_digits 0 False cs)
          else map_option int (int_digits 0 False (c # cs)))"

fun digits_of :: "nat \<Rightarrow> string" where
  "digits_of n = (if n < 10 then [digit_char n] else digits_of (n div 10) @ [digit_char (n mod 10)])"

declare digits_of.simps [simp del]

definition str_int :: "int \<Rightarrow> string" where
  "str_int i = (if i < 0 then CHR ''-'' # digits_of (nat (- i)) else digits_of (nat i))"

subsection \<open>\<open>str.rsplit(sep, 1)\<close>, \<open>str.split(sep)\<close> and tuple unpacking\<close>

definition rsplit1 :: "char \<Rightarrow> string \<Rightarrow> string list" where
  "rsplit1 sep s =
     (if sep \<in> set s
      then [rev (tl (dropWhile (\<lambda>c. c \<noteq> sep) (rev s))), rev (takeWhile (\<lambda>c. c \<noteq> sep) (rev s))]
      else [s])"

fun split_on :: "char \<Rightarrow> string \<Rightarrow> string list" where
  "split_on sep [] = [[]]"
| "split_on sep (c # cs) =
     (if c = sep then [] # split_on sep cs
      else (case split_on sep cs of [] \<Rightarrow> [[c]] | p # ps \<Rightarrow> (c # p) # ps))"

text \<open>\<open>a, b = xs\<close> raises \<open>ValueError\<close> unless \<open>xs\<close> has exactly two items.\<close>

fun unpack2 :: "'a list \<Rightarrow> ('a \<times> 'a) option" where
  "unpack2 [a, b] = Some (a, b)"
| "unpack2 xs = None"

subsection \<open>The parser\<close>

datatype parse_error = NetworkFormatError | AddressFormatError | UnpackError | IntValueError

text \<open>
  The address library (netaddr) is not part of the repository; the parser takes its two
  entry points as parameters: \<open>IPNetwork_str t\<close> is \<open>str(IPNetwork(t))\<close>, or \<open>None\<close> when
  the constructor raises, and \<open>IPAddress_ok t\<close> tells whether \<open>IPAddress(t)\<close> returns.

  The body of the \<open>try\<close> block: the three branches in the order of the source. In the
  range branch both bounds are converted before the loop starts, and a last component
  without a hyphen appends nothing.
\<close>

definition parse_target_try ::
  "(string \<Rightarrow> string option) \<Rightarrow> (string \<Rightarrow> bool) \<Rightarrow> string \<Rightarrow> parse_error + string list" where
  "parse_target_try IPNetwork_str IPAddress_ok target =
     (if CHR ''/'' \<in> set target then
        (case IPNetwork_str target of
           None \<Rightarrow> Inl NetworkFormatError
         | Some network \<Rightarrow> Inr [network])
      else if CHR ''-'' \<in> set target \<and> CHR ''.'' \<in> set target then
        (case unpack2 (rsplit1 CHR ''.'' target) of
           None \<Rightarrow> Inl UnpackError
         | Some (base_ip, range_part) \<Rightarrow>
             if CHR ''-'' \<in> set range_part then
               (case unpack2 (split_on CHR ''-'' range_part) of
                  None \<Rightarrow> Inl UnpackError
                | Some (start, end) \<Rightarrow>
                    (case int_py start of
                       None \<Rightarrow> Inl IntValueError
                     | Some lo \<Rightarrow>
                         (case int_py end of
                            None \<Rightarrow> Inl IntValueError
                          | Some hi \<Rightarrow>
                              Inr (map (\<lambda>i. base_ip @ ''.'' @ str_int i @ ''/32'') [lo..hi]))))
             else Inr [])
      else if IPAddress_ok target then Inr [target @ ''/32'']
      else Inl AddressFormatError)"

text \<open>\<open>except Exception: return []\<close>.\<close>

definition parse_target ::
  "(string \<Rightarrow> string option) \<Rightarrow> (string \<Rightarrow> bool) \<Rightarrow> string \<Rightarrow> string list" where
  "parse_target IPNetwork_str IPAddress_ok target =
     (case parse_target_try IPNetwork_str IPAddress_ok target of
        Inl e \<Rightarrow> []
      | Inr targets \<Rightarrow> targets)"

subsection \<open>Notions used to state the parser's properties\<close>

text \<open>A decimal digit, which is none of the characters the parser looks for.\<close>

definition plain_digit :: "char \<Rightarrow> bool" where
  "plain_digit c \<longleftrightarrow>
     is_digit c \<and> \<not> is_space c \<and> c \<notin> {CHR ''-'', CHR ''+'', CHR ''.'', CHR ''/''}"

text \<open>The first three octets \<open>a.b.c\<close> of a range expression, in decimal.\<close>

definition dotted3 :: "int \<Rightarrow> int \<Rightarrow> int \<Rightarrow> string" where
  "dotted3 a b c = str_int a @ ''.'' @ str_int b @ ''.'' @ str_int c"

text \<open>
  A stand-in for the address library's validator, for the places where a concrete
  parameter is needed: it accepts the dotted quads of decimal octets in 0..255.
\<close>

definition dotted_quad_ok :: "string \<Rightarrow> bool" where
  "dotted_quad_ok s =
     (let parts = split_on CHR ''.'' s
      in length parts = 4 \<and>
         list_all (\<lambda>p. p \<noteq> [] \<and> length p \<le> 3 \<and> list_all is_digit p \<and>
                        foldl (\<lambda>a c. 10 * a + digit_val c) 0 p \<le> 255) parts)"

section \<open>Python values, dictionaries and exceptions\<close>

text \<open>The JSON-like values a job's \<open>options\<close> dictionary can hold.\<close>

datatype pyval = PNone | PBool bool | PInt int | PStr string | PList "pyval list"
  | PDict "(string \<times> pyval) list"

fun truthy :: "pyval \<Rightarrow> bool" where
  "truthy PNone = False"
| "truthy (PBool b) = b"
| "truthy (PInt i) = (i \<noteq> 0)"
| "truthy (PStr s) = (s \<noteq> [])"
| "truthy (PList xs) = (xs \<noteq> [])"
| "truthy (PDict kvs) = (kvs \<noteq> [])"

text \<open>
  A dictionary is an association list with distinct keys in insertion order. Assigning to
  a key that is present keeps its position, a new key goes to the end.
\<close>

definition dict_get :: "('k \<times> 'v) list \<Rightarrow> 'k \<Rightarrow> 'v option" where
  "dict_get d k = map_of d k"

definition dict_get_default :: "('k \<times> 'v) list \<Rightarrow> 'k \<Rightarrow> 'v \<Rightarrow> 'v" where
  "dict_get_default d k dflt = (case map_of d k of None \<Rightarrow> dflt | Some v \<Rightarrow> v)"

fun dict_set :: "('k \<times> 'v) list \<Rightarrow> 'k \<Rightarrow> 'v \<Rightarrow> ('k \<times> 'v) list" where
  "dict_set [] k v = [(k, v)]"
| "dict_set ((k', v') # d) k v = (if k' = k then (k, v) # d else (k', v') # dict_set d k v)"

definition dict_update :: "('k \<times> 'v) list \<Rightarrow> ('k \<times> 'v) list \<Rightarrow> ('k \<times> 'v) list" where
  "dict_update d e = foldl (\<lambda>acc (k, v). dict_set acc k v) d e"

definition dict_keys :: "('k \<times> 'v) list \<Rightarrow> 'k list" where
  "dict_keys d = map fst d"

text \<open>An exception caught by \<open>except Exception as e\<close>, with \<open>str(e)\<close>.\<close>

datatype py_exception = PyException string

fun str_exc :: "py_exception \<Rightarrow> string" where
  "str_exc (PyException msg) = msg"

section \<open>The collaborators of the scanner\<close>

text \<open>
  What one call of the scanning engine (\<open>self.nm.scan\<close>) leaves in the engine object:
  for every host it reports, the host state, the scanned ports per protocol and, when
  present, the list of OS matches (each match a dictionary of strings).
\<close>

record port_info =
  pi_state :: string
  pi_name :: "string option"
  pi_product :: "string option"
  pi_version :: "string option"
  pi_extrainfo :: "string option"

record nm_host =
  nh_state :: string
  nh_protocols :: "(string \<times> (int \<times> port_info) list) list"
  nh_osmatch :: "(string \<times> string) list list option"

text \<open>A call \<open>self.nm.scan(hosts, ports, arguments)\<close>; \<open>ports\<close> is absent in two of the calls.\<close>

datatype nm_call = NmScan string "string option" string

datatype host_lookup = Resolved string | HostError | LookupRaised py_exception

text \<open>The call sites of \<open>datetime.utcnow()\<close>, each with its own clock reading.\<close>

datatype clock_point = JobStarted | JobCompleted | JobFailed
  | DiscoveryStarted | DiscoveryCompleted | DiscoveryFailed
  | Profiled string | PortScanned string | PortScanFailed string | DeviceMerged string

typedecl py_float

record Vulnerability =
  vuln_id :: string
  device_id :: string
  cve_id :: "string option"
  title :: string
  description :: string
  severity :: ThreatLevel
  cvss_score :: "py_float option"
  affected_service :: "string option"
  port :: "int option"
  solution :: "string option"
  references :: "string list"
  discovered_at :: datetime
  is_resolved :: bool
  ai_analysis :: "string option"

text \<open>The \<open>scan_metadata\<close> dictionary of a discovery; an absent key is \<open>None\<close>.\<close>

record scan_metadata =
  md_target :: string
  md_scan_type :: string
  md_started_at :: datetime
  md_techniques_used :: "string list"
  md_completed_at :: "datetime option"
  md_devices_found :: "nat option"
  md_duration :: "int option"
  md_error :: "string option"

text \<open>
  Everything outside the repository's code that a job talks to. Each field answers one
  kind of request; \<open>Inl\<close> is the exception the request raises.
  \<^item> \<open>IPNetwork_str\<close>, \<open>IPAddress_ok\<close>, \<open>ip_in_network\<close>, \<open>is_local_network\<close>: the address
    library; \<open>ip_in_network ip net\<close> is \<open>IPAddress(ip) in IPNetwork(net)\<close>, \<open>None\<close> when
    it raises; \<open>is_local_network\<close> is the result of \<open>_is_local_network\<close>, whose body
    only asks the library about three private blocks inside a bare \<open>try\<close>;
  \<^item> \<open>nm_scan\<close>: the scanning engine;
  \<^item> \<open>arp_a\<close>, \<open>arp_n\<close>: the output of the \<open>arp\<close> command;
  \<^item> \<open>gethostbyaddr\<close>: reverse name resolution;
  \<^item> \<open>uuid4\<close>, \<open>utcnow\<close>: fresh identities and clock readings;
  \<^item> \<open>scan_device_vulnerabilities\<close>: the vulnerability scanner, whose source is not in
    the repository; it returns the candidates found on a device;
  \<^item> \<open>chat_send\<close>: the outcome of building the prompt and asking the AI service.
\<close>

record world =
  IPNetwork_str :: "string \<Rightarrow> string option"
  IPAddress_ok :: "string \<Rightarrow> bool"
  ip_in_network :: "string \<Rightarrow> string \<Rightarrow> bool option"
  is_local_network :: "string \<Rightarrow> bool"
  nm_scan :: "nm_call \<Rightarrow> py_exception + (string \<times> nm_host) list"
  arp_a :: "py_exception + string"
  arp_n :: "string \<Rightarrow> py_exception + string"
  gethostbyaddr :: "string \<Rightarrow> host_lookup"
  uuid4 :: "string \<Rightarrow> string"
  utcnow :: "clock_point \<Rightarrow> datetime"
  scan_device_vulnerabilities ::
    "Device \<Rightarrow> (string \<times> pyval) list \<Rightarrow> py_exception + Vulnerability list"
  chat_send :: "scan_metadata option \<Rightarrow> Device list \<Rightarrow> py_exception + string"

section \<open>Host discovery (NetworkScanner._ping_sweep, NetworkScanner._arp_scan)\<close>

text \<open>
  The engine object is the scanner's state: \<open>nm\<close> is the list of calls made on it so
  far, and every method that scans returns it extended.
\<close>

definition ping_sweep ::
  "world \<Rightarrow> nm_call list \<Rightarrow> string \<Rightarrow> (string \<times> bool) list \<times> nm_call list" where
  "ping_sweep w nm target =
     (let call = NmScan target None ''-sn -T4''
      in case nm_scan w call of
           Inl e \<Rightarrow> ([], nm @ [call])
         | Inr all_hosts \<Rightarrow>
             (foldl (\<lambda>responsive_hosts (host, info).
                       if nh_state info = ''up'' then dict_set responsive_hosts host True
                       else responsive_hosts) [] all_hosts,
              nm @ [call]))"

text \<open>
  \<open>re.search(r'\(([0-9.]+)\)', line)\<close>: the leftmost opening parenthesis that is followed
  by a non-empty run of digits and dots and then a closing parenthesis; the run is group 1.
\<close>

definition ip_char :: "char \<Rightarrow> bool" where
  "ip_char c = (is_digit c \<or> c = CHR ''.'')"

fun re_paren_ip :: "string \<Rightarrow> string option" where
  "re_paren_ip [] = None"
| "re_paren_ip (c # cs) =
     (if c = CHR ''(''
      then (let run = takeWhile ip_char cs; rest = dropWhile ip_char cs
            in if run \<noteq> [] \<and> rest \<noteq> [] \<and> hd rest = CHR '')'' then Some run
               else re_paren_ip cs)
      else re_paren_ip cs)"

definition arp_line ::
  "world \<Rightarrow> string \<Rightarrow> (string \<times> bool) list \<Rightarrow> string \<Rightarrow> (string \<times> bool) list" where
  "arp_line w target arp_results line =
     (if CHR ''('' \<in> set line \<and> CHR '')'' \<in> set line then
        (case re_paren_ip line of
           None \<Rightarrow> arp_results
         | Some ip \<Rightarrow>
             (case ip_in_network w ip target of
                Some True \<Rightarrow> dict_set arp_results ip True
              | _ \<Rightarrow> arp_results))
      else arp_results)"

definition arp_scan :: "world \<Rightarrow> string \<Rightarrow> (string \<times> bool) list" where
  "arp_scan w target =
     (case arp_a w of
        Inl e \<Rightarrow> []
      | Inr arp_output \<Rightarrow> foldl (arp_line w target) [] (split_on (CHR 0x0A) arp_output))"

section \<open>Host profiling (NetworkScanner.port_scan_device and what follows it)\<close>

text \<open>The result dictionary of a port scan that ran to its end.\<close>

record port_results =
  pr_ip :: string
  pr_scan_type :: string
  pr_ports_scanned :: string
  pr_open_ports :: "int list"
  pr_filtered_ports :: "int list"
  pr_closed_ports :: "int list"
  pr_services :: "(string \<times> service_info) list"
  pr_scan_time :: datetime

text \<open>The second form has the keys \<open>ip\<close>, \<open>error\<close> and \<open>scan_time\<close> only.\<close>

datatype port_scan_outcome = ScanOk port_results | ScanError string string datetime

definition port_entry :: "string \<Rightarrow> port_results \<Rightarrow> int \<times> port_info \<Rightarrow> port_results" where
  "port_entry protocol scan_results entry =
     (let port = fst entry; info = snd entry; state = pi_state info
      in if state = ''open'' then
           scan_results
             \<lparr> pr_open_ports := pr_open_ports scan_results @ [port],
               pr_services := dict_set (pr_services scan_results) (str_int port)
                 \<lparr> svc_port = port, svc_protocol = protocol, svc_state = state,
                   svc_name = (case pi_name info of None \<Rightarrow> [] | Some s \<Rightarrow> s),
                   svc_product = (case pi_product info of None \<Rightarrow> [] | Some s \<Rightarrow> s),
                   svc_version = (case pi_version info of None \<Rightarrow> [] | Some s \<Rightarrow> s),
                   svc_extrainfo = (case pi_extrainfo info of None \<Rightarrow> [] | Some s \<Rightarrow> s) \<rparr> \<rparr>
         else if state = ''filtered'' then
           scan_results\<lparr> pr_filtered_ports := pr_filtered_ports scan_results @ [port] \<rparr>
         else if state = ''closed'' then
           scan_results\<lparr> pr_closed_ports := pr_closed_ports scan_results @ [port] \<rparr>
         else scan_results)"

definition scan_arguments :: "string \<Rightarrow> string" where
  "scan_arguments scan_type =
     ''-T4 -n'' @ (if scan_type = ''syn'' then '' -sS''
                  else if scan_type = ''tcp'' then '' -sT''
                  else if scan_type = ''udp'' then '' -sU''
                  else [])"

definition port_scan_device ::
  "world \<Rightarrow> nm_call list \<Rightarrow> string \<Rightarrow> string \<Rightarrow> string \<Rightarrow> port_scan_outcome \<times> nm_call list" where
  "port_scan_device w nm ip ports scan_type =
     (let call = NmScan ip (Some ports) (scan_arguments scan_type)
      in case nm_scan w call of
           Inl e \<Rightarrow> (ScanError ip (str_exc e) (utcnow w (PortScanFailed ip)), nm @ [call])
         | Inr all_hosts \<Rightarrow>
             (let scan_results =
                    \<lparr> pr_ip = ip, pr_scan_type = scan_type, pr_ports_scanned = ports,
                      pr_open_ports = [], pr_filtered_ports = [], pr_closed_ports = [],
                      pr_services = [], pr_scan_time = utcnow w (PortScanned ip) \<rparr>
              in (case map_of all_hosts ip of
                    None \<Rightarrow> ScanOk scan_results
                  | Some host_info \<Rightarrow>
                      ScanOk (foldl (\<lambda>res (protocol, ports_data).
                                       foldl (port_entry protocol) res ports_data)
                                scan_results (nh_protocols host_info)),
                  nm @ [call])))"

text \<open>
  \<open>_detect_os\<close>: the dictionary built from the first OS match has the keys \<open>name\<close>,
  \<open>accuracy\<close> and \<open>vendor\<close>.
\<close>

definition detect_os ::
  "world \<Rightarrow> nm_call list \<Rightarrow> string \<Rightarrow> (string \<times> string) list option \<times> nm_call list" where
  "detect_os w nm ip =
     (let call = NmScan ip None ''-O -T4''
      in case nm_scan w call of
           Inl e \<Rightarrow> (None, nm @ [call])
         | Inr all_hosts \<Rightarrow>
             (case map_of all_hosts ip of
                None \<Rightarrow> (None, nm @ [call])
              | Some host_info \<Rightarrow>
                  (case nh_osmatch host_info of
                     None \<Rightarrow> (None, nm @ [call])
                   | Some [] \<Rightarrow> (None, nm @ [call])
                   | Some (best_match # others) \<Rightarrow>
                       (Some [(''name'', dict_get_default best_match ''name'' []),
                              (''accuracy'', dict_get_default best_match ''accuracy'' []),
                              (''vendor'', dict_get_default best_match ''vendor'' [])],
                        nm @ [call]))))"

text \<open>
  \<open>re.search(r'([0-9a-fA-F]{2}[:-]){5}[0-9a-fA-F]{2}', arp_output)\<close>: the leftmost run
  of six pairs of hexadecimal digits separated by colons or hyphens.
\<close>

definition is_hex :: "char \<Rightarrow> bool" where
  "is_hex c =
     (let n = (of_char c :: nat)
      in (48 \<le> n \<and> n \<le> 57) \<or> (97 \<le> n \<and> n \<le> 102) \<or> (65 \<le> n \<and> n \<le> 70))"

fun mac_groups :: "nat \<Rightarrow> string \<Rightarrow> bool" where
  "mac_groups 0 (a # b # rest) = (is_hex a \<and> is_hex b)"
| "mac_groups (Suc n) (a # b # s # rest) =
     (is_hex a \<and> is_hex b \<and> (s = CHR '':'' \<or> s = CHR ''-'') \<and> mac_groups n rest)"
| "mac_groups n s = False"

fun re_mac :: "string \<Rightarrow> string option" where
  "re_mac [] = None"
| "re_mac (c # cs) = (if mac_groups 5 (c # cs) then Some (take 17 (c # cs)) else re_mac cs)"

definition get_mac_address :: "world \<Rightarrow> string \<Rightarrow> string option" where
  "get_mac_address w ip =
     (case arp_n w ip of
        Inl e \<Rightarrow> None
      | Inr arp_output \<Rightarrow> re_mac arp_output)"

text \<open>
  The body of the \<open>try\<close> block of \<open>_scan_device_details\<close>. Name resolution is the one
  step that is not wrapped on its own for every exception: \<open>herror\<close> and \<open>gaierror\<close> are
  passed over, anything else leaves the block. The port scan, the OS detection and the
  MAC lookup catch their own exceptions.
\<close>

definition scan_device_details_try ::
  "world \<Rightarrow> nm_call list \<Rightarrow> string \<Rightarrow> (string \<times> pyval) list
     \<Rightarrow> (py_exception + Device) \<times> nm_call list" where
  "scan_device_details_try w nm ip options =
     (let device = new_device (uuid4 w ip) ip (utcnow w (Profiled ip))
      in case gethostbyaddr w ip of
           LookupRaised e \<Rightarrow> (Inl e, nm)
         | lookup \<Rightarrow>
             (let device = (case lookup of Resolved name \<Rightarrow> device\<lparr>hostname := Some name\<rparr>
                            | _ \<Rightarrow> device);
                  (port_results, nm) = port_scan_device w nm ip ''1-1000'' ''syn'';
                  device = (case port_results of
                              ScanOk r \<Rightarrow>
                                device\<lparr>open_ports := pr_open_ports r, services := pr_services r\<rparr>
                            | ScanError _ _ _ \<Rightarrow> device);
                  (device, nm) =
                    (if truthy (dict_get_default options ''os_detection'' (PBool False)) then
                       (let (os_info, nm) = detect_os w nm ip
                        in case os_info of
                             None \<Rightarrow> (device, nm)
                           | Some info \<Rightarrow>
                               if info \<noteq> [] then
                                 (device\<lparr>os_name := dict_get info ''name'',
                                         os_version := dict_get info ''version'',
                                         vendor := dict_get info ''vendor''\<rparr>, nm)
                               else (device, nm))
                     else (device, nm));
                  device = device\<lparr>device_type := classify_device_type device\<rparr>;
                  device = (case get_mac_address w ip of
                              None \<Rightarrow> device
                            | Some mac \<Rightarrow>
                                if mac \<noteq> [] then device\<lparr>mac_address := Some mac\<rparr> else device)
              in (Inr device, nm)))"

text \<open>\<open>except Exception: return None\<close>.\<close>

definition scan_device_details ::
  "world \<Rightarrow> nm_call list \<Rightarrow> string \<Rightarrow> (string \<times> pyval) list \<Rightarrow> Device option \<times> nm_call list" where
  "scan_device_details w nm ip options =
     (case scan_device_details_try w nm ip options of
        (Inl e, nm') \<Rightarrow> (None, nm')
      | (Inr device, nm') \<Rightarrow> (Some device, nm'))"

section \<open>Network discovery (NetworkScanner.discover_network_devices)\<close>

text \<open>
  The loop over the responsive hosts. \<open>_scan_device_details\<close> returns \<open>None\<close> instead of
  raising, so the \<open>except Exception: continue\<close> around the call never runs; a host
  without a device is passed over by \<open>if device\<close>.
\<close>

fun profile_hosts ::
  "world \<Rightarrow> (string \<times> pyval) list \<Rightarrow> string list \<Rightarrow> Device list \<Rightarrow> nm_call list
     \<Rightarrow> Device list \<times> nm_call list" where
  "profile_hosts w options [] devices nm = (devices, nm)"
| "profile_hosts w options (ip # ips) devices nm =
     (case scan_device_details w nm ip options of
        (Some device, nm') \<Rightarrow> profile_hosts w options ips (devices @ [device]) nm'
      | (None, nm') \<Rightarrow> profile_hosts w options ips devices nm')"

text \<open>The responsive hosts of one block: the ping sweep, joined by the ARP table for a local block.\<close>

definition responsive_hosts ::
  "world \<Rightarrow> nm_call list \<Rightarrow> string \<Rightarrow> (string \<times> bool) list \<times> string list \<times> nm_call list" where
  "responsive_hosts w nm ip_range =
     (let (ping_results, nm) = ping_sweep w nm ip_range
      in if is_local_network w ip_range
         then (dict_update ping_results (arp_scan w ip_range), [''ping_sweep'', ''arp_scan''], nm)
         else (ping_results, [''ping_sweep''], nm))"

text \<open>The loop over \<open>ip_ranges\<close>, with the device list, the techniques and the engine as state.\<close>

fun discover_ranges ::
  "world \<Rightarrow> (string \<times> pyval) list \<Rightarrow> string list \<Rightarrow> Device list \<Rightarrow> string list \<Rightarrow> nm_call list
     \<Rightarrow> Device list \<times> string list \<times> nm_call list" where
  "discover_ranges w options [] devices techniques nm = (devices, techniques, nm)"
| "discover_ranges w options (ip_range # rest) devices techniques nm =
     (case responsive_hosts w nm ip_range of
        (ping_results, used, nm1) \<Rightarrow>
          (case profile_hosts w options (dict_keys ping_results) devices nm1 of
             (devices', nm2) \<Rightarrow> discover_ranges w options rest devices' (techniques @ used) nm2))"

text \<open>
  The only exception raised inside the \<open>try\<close> block is the \<open>ValueError\<close> for an empty
  parse result, before the loop; the handler returns the devices collected so far (none)
  and the metadata with the keys \<open>error\<close> and \<open>completed_at\<close> added.
\<close>

definition discover_network_devices ::
  "world \<Rightarrow> nm_call list \<Rightarrow> string \<Rightarrow> (string \<times> pyval) list
     \<Rightarrow> (Device list \<times> scan_metadata) \<times> nm_call list" where
  "discover_network_devices w nm target scan_options =
     (let scan_metadata =
            \<lparr> md_target = target, md_scan_type = ''network_discovery'',
              md_started_at = utcnow w DiscoveryStarted, md_techniques_used = [],
              md_completed_at = None, md_devices_found = None, md_duration = None,
              md_error = None \<rparr>;
          ip_ranges = parse_target (IPNetwork_str w) (IPAddress_ok w) target
      in if ip_ranges = [] then
           (([], scan_metadata
                  \<lparr> md_error := Some (''Invalid target format: '' @ target),
                    md_completed_at := Some (utcnow w DiscoveryFailed) \<rparr>), nm)
         else
           (case discover_ranges w scan_options ip_ranges [] [] nm of
              (devices, techniques, nm') \<Rightarrow>
                (let completed = utcnow w DiscoveryCompleted
                 in ((devices, scan_metadata
                        \<lparr> md_techniques_used := techniques,
                          md_completed_at := Some completed,
                          md_devices_found := Some (length devices),
                          md_duration := Some (int completed - int (md_started_at scan_metadata)) \<rparr>),
                     nm'))))"

section \<open>The document store and the scan job (server.py)\<close>

record ScanResult =
  sr_id :: string
  job_scan_type :: ScanType
  job_target :: string
  status :: ScanStatus
  started_at :: datetime
  completed_at :: "datetime option"
  duration_seconds :: "int option"
  devices_discovered :: int
  vulnerabilities_found :: int
  ports_scanned :: int
  results :: "scan_metadata option"
  error_message :: "string option"
  ai_summary :: "string option"
  created_by :: "string option"

text \<open>
  The state of the server process: the three collections the job uses, each a list of
  documents in insertion order, and the scanner's engine object. The operations of a
  collection always return; an unreachable database is outside the model.
\<close>

record backend =
  db_devices :: "Device list"
  db_vulnerabilities :: "Vulnerability list"
  db_scan_results :: "ScanResult list"
  nm_calls :: "nm_call list"

definition find_one :: "('a \<Rightarrow> bool) \<Rightarrow> 'a list \<Rightarrow> 'a option" where
  "find_one query collection = List.find query collection"

text \<open>\<open>update_one\<close> changes the first document that matches, if there is one.\<close>

fun update_one :: "('a \<Rightarrow> bool) \<Rightarrow> ('a \<Rightarrow> 'a) \<Rightarrow> 'a list \<Rightarrow> 'a list" where
  "update_one query change [] = []"
| "update_one query change (doc # docs) =
     (if query doc then change doc # docs else doc # update_one query change docs)"

definition insert_one :: "'a list \<Rightarrow> 'a \<Rightarrow> 'a list" where
  "insert_one collection doc = collection @ [doc]"

text \<open>
  Saving one discovered device (the body of the loop at lines 357-368). The update sets
  every field of \<open>device.dict()\<close>, with \<open>updated_at\<close> replaced by the clock reading.
\<close>

definition save_device :: "world \<Rightarrow> Device list \<Rightarrow> Device \<Rightarrow> Device list" where
  "save_device w collection device =
     (case find_one (\<lambda>doc. ip_address doc = ip_address device) collection of
        Some existing \<Rightarrow>
          update_one (\<lambda>doc. ip_address doc = ip_address device)
            (\<lambda>doc. device\<lparr>updated_at := utcnow w (DeviceMerged (ip_address device))\<rparr>)
            collection
      | None \<Rightarrow> insert_one collection device)"

definition save_devices :: "world \<Rightarrow> Device list \<Rightarrow> Device list \<Rightarrow> Device list" where
  "save_devices w collection devices = foldl (save_device w) collection devices"

text \<open>Saving one vulnerability candidate (the body of the loop at lines 384-393).\<close>

definition same_finding :: "Vulnerability \<Rightarrow> Vulnerability \<Rightarrow> bool" where
  "same_finding vuln doc \<longleftrightarrow>
     device_id doc = device_id vuln \<and> title doc = title vuln \<and> port doc = port vuln"

definition save_vulnerability :: "Vulnerability list \<Rightarrow> Vulnerability \<Rightarrow> Vulnerability list" where
  "save_vulnerability collection vuln =
     (case find_one (same_finding vuln) collection of
        None \<Rightarrow> insert_one collection vuln
      | Some existing \<Rightarrow> collection)"

definition save_vulnerabilities ::
  "Vulnerability list \<Rightarrow> Vulnerability list \<Rightarrow> Vulnerability list" where
  "save_vulnerabilities collection device_vulns = foldl save_vulnerability collection device_vulns"

text \<open>
  The loop over the target devices of a vulnerability scan. An exception of the scanner
  leaves the loop; what was saved before stays in the collection.
\<close>

fun scan_target_devices ::
  "world \<Rightarrow> (string \<times> pyval) list \<Rightarrow> Device list \<Rightarrow> Vulnerability list \<Rightarrow> Vulnerability list
     \<Rightarrow> py_exception option \<times> Vulnerability list \<times> Vulnerability list" where
  "scan_target_devices w options [] collection vulnerabilities = (None, collection, vulnerabilities)"
| "scan_target_devices w options (device # rest) collection vulnerabilities =
     (case scan_device_vulnerabilities w device options of
        Inl e \<Rightarrow> (Some e, collection, vulnerabilities)
      | Inr device_vulns \<Rightarrow>
          scan_target_devices w options rest (save_vulnerabilities collection device_vulns)
            (vulnerabilities @ device_vulns))"

text \<open>\<open>AISecurityAnalyst.analyze_scan_results\<close>: any exception gives the fixed text.\<close>

definition analyze_scan_results :: "world \<Rightarrow> scan_metadata option \<Rightarrow> Device list \<Rightarrow> string" where
  "analyze_scan_results w scan_results devices =
     (case chat_send w scan_results devices of
        Inl e \<Rightarrow> ''AI analysis unavailable. Manual review of scan results recommended.''
      | Inr response \<Rightarrow> response)"

text \<open>
  The end of the \<open>try\<close> block of \<open>run_scan\<close>: the AI summary and the update that
  completes the job. \<open>scan_metadata\<close> is \<open>None\<close> for the empty dictionary.
\<close>

definition complete_scan ::
  "world \<Rightarrow> backend \<Rightarrow> string \<Rightarrow> Device list \<Rightarrow> Vulnerability list \<Rightarrow> scan_metadata option
     \<Rightarrow> backend" where
  "complete_scan w s scan_id devices vulnerabilities scan_metadata =
     (let ai_summary' =
            (if devices \<noteq> [] then analyze_scan_results w scan_metadata devices
             else ''Scan completed successfully'')
      in s\<lparr> db_scan_results :=
              update_one (\<lambda>job. sr_id job = scan_id)
                (\<lambda>job. job
                   \<lparr> status := COMPLETED,
                     completed_at := Some (utcnow w JobCompleted),
                     devices_discovered := int (length devices),
                     vulnerabilities_found := int (length vulnerabilities),
                     results := scan_metadata,
                     ai_summary := Some ai_summary',
                     duration_seconds :=
                       Some (case scan_metadata of
                               None \<Rightarrow> 0
                             | Some md \<Rightarrow> (case md_duration md of None \<Rightarrow> 0 | Some dur \<Rightarrow> dur)) \<rparr>)
                (db_scan_results s) \<rparr>)"

text \<open>
  The \<open>try\<close> block of \<open>run_scan\<close>: the exception that leaves it, if any, and the state
  reached.
\<close>

definition run_scan_try ::
  "world \<Rightarrow> backend \<Rightarrow> string \<Rightarrow> ScanType \<Rightarrow> string \<Rightarrow> (string \<times> pyval) list
     \<Rightarrow> py_exception option \<times> backend" where
  "run_scan_try w s scan_id scan_type target options =
     (let s = s\<lparr> db_scan_results :=
                   update_one (\<lambda>job. sr_id job = scan_id)
                     (\<lambda>job. job\<lparr>status := RUNNING, started_at := utcnow w JobStarted\<rparr>)
                     (db_scan_results s) \<rparr>
      in if scan_type = NETWORK_DISCOVERY then
           (case discover_network_devices w (nm_calls s) target options of
              ((devices, scan_metadata), nm') \<Rightarrow>
                (let s = s\<lparr> nm_calls := nm',
                             db_devices := save_devices w (db_devices s) devices \<rparr>
                 in (None, complete_scan w s scan_id devices [] (Some scan_metadata))))
         else if scan_type = VULNERABILITY_SCAN then
           (let device_docs =
                  (if target = ''all'' then filter is_active (db_devices s)
                   else filter (\<lambda>doc. ip_address doc = target) (db_devices s))
            in case scan_target_devices w options device_docs (db_vulnerabilities s) [] of
                 (Some e, collection, vulnerabilities) \<Rightarrow>
                   (Some e, s\<lparr>db_vulnerabilities := collection\<rparr>)
               | (None, collection, vulnerabilities) \<Rightarrow>
                   (None, complete_scan w (s\<lparr>db_vulnerabilities := collection\<rparr>) scan_id []
                            vulnerabilities None))
         else (None, complete_scan w s scan_id [] [] None))"

text \<open>\<open>run_scan\<close> with its handler, which marks the job as failed with \<open>str(e)\<close>.\<close>

definition run_scan ::
  "world \<Rightarrow> backend \<Rightarrow> string \<Rightarrow> ScanType \<Rightarrow> string \<Rightarrow> (string \<times> pyval) list \<Rightarrow> backend" where
  "run_scan w s scan_id scan_type target options =
     (case run_scan_try w s scan_id scan_type target options of
        (None, s') \<Rightarrow> s'
      | (Some e, s') \<Rightarrow>
          s'\<lparr> db_scan_results :=
                update_one (\<lambda>job. sr_id job = scan_id)
                  (\<lambda>job. job
                     \<lparr> status := FAILED,
                       completed_at := Some (utcnow w JobFailed),
                       error_message := Some (str_exc e) \<rparr>)
                  (db_scan_results s') \<rparr>)"

text \<open>
  \<open>ScanResult(scan_type=..., target=..., status=PENDING)\<close>, the record \<open>create_scan\<close>
  stores before it schedules \<open>run_scan\<close>.
\<close>

definition new_scan_result :: "string \<Rightarrow> ScanType \<Rightarrow> string \<Rightarrow> datetime \<Rightarrow> ScanResult" where
  "new_scan_result uid scan_type target now =
     \<lparr> sr_id = uid, job_scan_type = scan_type, job_target = target, status = PENDING,
       started_at = now, completed_at = None, duration_seconds = None,
       devices_discovered = 0, vulnerabilities_found = 0, ports_scanned = 0, results = None,
       error_message = None, ai_summary = None, created_by = None \<rparr>"

section \<open>Notions used to state the properties of discovery and jobs\<close>

text \<open>The device a host is profiled to, if any, and the responsive hosts of a block.\<close>

definition profiled :: "world \<Rightarrow> (string \<times> pyval) list \<Rightarrow> string \<Rightarrow> Device option" where
  "profiled w options ip = fst (scan_device_details w [] ip options)"

definition responsive :: "world \<Rightarrow> string \<Rightarrow> string list" where
  "responsive w ip_range = dict_keys (fst (responsive_hosts w [] ip_range))"

text \<open>The stored record of a job, and the stored records for an address or a finding.\<close>

definition stored_job :: "backend \<Rightarrow> string \<Rightarrow> ScanResult option" where
  "stored_job s scan_id = find_one (\<lambda>job. sr_id job = scan_id) (db_scan_results s)"

definition records_for_ip :: "Device list \<Rightarrow> string \<Rightarrow> Device list" where
  "records_for_ip collection ip = filter (\<lambda>doc. ip_address doc = ip) collection"

definition records_for_finding :: "Vulnerability list \<Rightarrow> Vulnerability \<Rightarrow> Vulnerability list" where
  "records_for_finding collection vuln = filter (same_finding vuln) collection"

text \<open>The state after the first update of \<open>run_scan\<close>, which marks the job as running.\<close>

definition job_running :: "world \<Rightarrow> backend \<Rightarrow> string \<Rightarrow> backend" where
  "job_running w s scan_id =
     s\<lparr> db_scan_results :=
          update_one (\<lambda>job. sr_id job = scan_id)
            (\<lambda>job. job\<lparr>status := RUNNING, started_at := utcnow w JobStarted\<rparr>)
            (db_scan_results s) \<rparr>"

definition os_detection_enabled :: "(string \<times> pyval) list \<Rightarrow> bool" where
  "os_detection_enabled options = truthy (dict_get_default options ''os_detection'' (PBool False))"

section \<open>Concrete devices\<close>

definition dev_web :: Device where
  "dev_web = (new_device ''d1'' ''10.0.0.1'' 0)\<lparr>open_ports := [22, 80], hostname := Some ''web01''\<rparr>"

definition dev_printer :: Device where
  "dev_printer =
     (new_device ''d2'' ''10.0.0.2'' 0)\<lparr>open_ports := [631], hostname := Some ''router-room''\<rparr>"

definition dev_snmp :: Device where
  "dev_snmp = (new_device ''d3'' ''10.0.0.3'' 0)\<lparr>open_ports := [161]\<rparr>"

definition dev_silent :: Device where
  "dev_silent = new_device ''d4'' ''10.0.0.4'' 0"

definition dev_ftp_printer :: Device where
  "dev_ftp_printer =
     (new_device ''d5'' ''10.0.0.5'' 0)\<lparr>open_ports := [21, 9100], hostname := Some ''router9''\<rparr>"

definition dev_ssh_printer_router :: Device where
  "dev_ssh_printer_router =
     (new_device ''d6'' ''10.0.0.7'' 0)\<lparr>open_ports := [22, 631], hostname := Some ''Core-Router''\<rparr>"

definition dev_win_a :: Device where
  "dev_win_a =
     (new_device ''a'' ''10.0.0.1'' 3)\<lparr>open_ports := [445, 135], os_name := Some ''Windows''\<rparr>"

definition dev_win_b :: Device where
  "dev_win_b =
     (new_device ''b'' ''10.0.0.9'' 8)\<lparr>open_ports := [135, 445, 135], vendor := Some ''Dell'',
        mac_address := Some ''00:11:22:33:44:55''\<rparr>"

section \<open>Concrete worlds and stores\<close>

text \<open>A world in which every probe fails: no engine, no \<open>arp\<close> command, no name service.\<close>

definition clock :: "clock_point \<Rightarrow> datetime" where
  "clock p = (case p of
       JobStarted \<Rightarrow> 100 | DiscoveryStarted \<Rightarrow> 101 | Profiled _ \<Rightarrow> 110 | PortScanned _ \<Rightarrow> 111
     | PortScanFailed _ \<Rightarrow> 112 | DiscoveryCompleted \<Rightarrow> 120 | DiscoveryFailed \<Rightarrow> 121
     | DeviceMerged _ \<Rightarrow> 130 | JobCompleted \<Rightarrow> 140 | JobFailed \<Rightarrow> 141)"

definition dark_world :: world where
  "dark_world =
     \<lparr> IPNetwork_str = Some, IPAddress_ok = dotted_quad_ok,
       ip_in_network = (\<lambda>ip net. Some True), is_local_network = (\<lambda>net. True),
       nm_scan = (\<lambda>call. Inl (PyException ''nmap program was not found in path'')),
       arp_a = Inl (PyException ''No such file or directory: arp''),
       arp_n = (\<lambda>ip. Inl (PyException ''No such file or directory: arp'')),
       gethostbyaddr = (\<lambda>ip. HostError),
       uuid4 = (\<lambda>ip. ''uuid-'' @ ip),
       utcnow = clock,
       scan_device_vulnerabilities = (\<lambda>device options. Inr []),
       chat_send = (\<lambda>md devices. Inl (PyException ''Object of type datetime is not JSON serializable'')) \<rparr>"

text \<open>
  A world with two hosts up in 10.0.0.0/29: 10.0.0.1 with ports 22 and 80 open, port 23
  closed and two OS matches, and 10.0.0.2, whose name lookup raises a timeout.
\<close>

definition open_port :: "string \<Rightarrow> port_info" where
  "open_port name =
     \<lparr> pi_state = ''open'', pi_name = Some name, pi_product = None, pi_version = None,
       pi_extrainfo = None \<rparr>"

definition lab_host :: nm_host where
  "lab_host =
     \<lparr> nh_state = ''up'',
       nh_protocols = [(''tcp'', [(22, open_port ''ssh''), (23, (open_port ''telnet'')\<lparr>pi_state := ''closed''\<rparr>),
                                  (80, open_port ''http'')])],
       nh_osmatch = Some [[(''name'', ''Linux 5.4''), (''version'', ''5.4''), (''vendor'', ''Linux''),
                           (''accuracy'', ''98'')],
                          [(''name'', ''FreeBSD 13''), (''version'', ''13''), (''vendor'', ''FreeBSD''),
                           (''accuracy'', ''90'')]] \<rparr>"

definition lab_engine :: "nm_call \<Rightarrow> py_exception + (string \<times> nm_host) list" where
  "lab_engine call =
     (case call of
        NmScan hosts ports arguments \<Rightarrow>
          if arguments = ''-sn -T4'' then
            Inr [(''10.0.0.1'', lab_host\<lparr>nh_protocols := [], nh_osmatch := None\<rparr>),
                 (''10.0.0.2'', lab_host\<lparr>nh_protocols := [], nh_osmatch := None\<rparr>),
                 (''10.0.0.3'', lab_host\<lparr>nh_state := ''down'', nh_protocols := [], nh_osmatch := None\<rparr>)]
          else if hosts = ''10.0.0.1'' then Inr [(''10.0.0.1'', lab_host)]
          else Inr [])"

definition lab_world :: world where
  "lab_world =
     dark_world
       \<lparr> is_local_network := (\<lambda>net. False),
         nm_scan := lab_engine,
         gethostbyaddr := (\<lambda>ip. if ip = ''10.0.0.2'' then LookupRaised (PyException ''timed out'')
                                  else Resolved ''web01'') \<rparr>"

definition empty_backend :: backend where
  "empty_backend = \<lparr> db_devices = [], db_vulnerabilities = [], db_scan_results = [], nm_calls = [] \<rparr>"

definition job1 :: ScanResult where
  "job1 = new_scan_result ''job-1'' NETWORK_DISCOVERY ''10.0.0.0/29'' 90"

definition job2 :: ScanResult where
  "job2 = new_scan_result ''job-2'' VULNERABILITY_SCAN ''all'' 95"

text \<open>Two observations of the host 10.0.0.1, the second made later with a fresh identity.\<close>

definition first_sight :: Device where
  "first_sight = (new_device ''uuid-A'' ''10.0.0.1'' 50)\<lparr>open_ports := [22]\<rparr>"

definition second_sight :: Device where
  "second_sight = (new_device ''uuid-B'' ''10.0.0.1'' 70)\<lparr>open_ports := [22, 80]\<rparr>"

text \<open>Two candidates for the same finding on the same device and port, and a third one.\<close>

definition weak_ssh :: Vulnerability where
  "weak_ssh =
     \<lparr> vuln_id = ''v-1'', device_id = ''uuid-A'', cve_id = None, title = ''Weak SSH ciphers'',
       description = ''The server accepts weak ciphers'', severity = MEDIUM, cvss_score = None,
       affected_service = Some ''ssh'', port = Some 22, solution = None, references = [],
       discovered_at = 60, is_resolved = False, ai_analysis = None \<rparr>"

definition weak_ssh_again :: Vulnerability where
  "weak_ssh_again = weak_ssh\<lparr>vuln_id := ''v-2'', discovered_at := 80\<rparr>"

definition open_telnet :: Vulnerability where
  "open_telnet =
     weak_ssh\<lparr>vuln_id := ''v-3'', title := ''Telnet exposed'', port := Some 23, severity := HIGH\<rparr>"

text \<open>A world whose vulnerability scanner raises an exception with an empty message.\<close>

definition timeout_world :: world where
  "timeout_world = dark_world\<lparr>scan_device_vulnerabilities := (\<lambda>device options. Inl (PyException []))\<rparr>"

text \<open>A world whose vulnerability scanner refuses to probe.\<close>

definition refusing_world :: world where
  "refusing_world =
     dark_world\<lparr>scan_device_vulnerabilities := (\<lambda>device options. Inl (PyException ''probe refused''))\<rparr>"

definition backend_with_device :: backend where
  "backend_with_device = empty_backend\<lparr>db_devices := [first_sight], db_scan_results := [job1, job2]\<rparr>"

section \<open>Properties of the target parser\<close>

subsection \<open>Decimal numerals round-trip through \<open>str\<close> and \<open>int\<close>\<close>

lemma digit_char_props:
  assumes "k < 10"
  shows "is_digit (digit_char k)" and "digit_val (digit_char k) = k"
    and "\<not> is_space (digit_char k)" and "digit_char k \<noteq> CHR ''-''"
    and "digit_char k \<noteq> CHR ''+''" and "digit_char k \<noteq> CHR ''.''"
    and "digit_char k \<noteq> CHR ''/''"
proof -
  have oc: "(of_char (digit_char k) :: nat) = 48 + k"
    using assms by (simp add: digit_char_def)
  show "is_digit (digit_char k)" using assms by (simp add: is_digit_def oc)
  show "digit_val (digit_char k) = k" by (simp add: digit_val_def oc)
  show "\<not> is_space (digit_char k)" by (simp add: is_space_def oc)
  show "digit_char k \<noteq> CHR ''-''" using oc by auto
  show "digit_char k \<noteq> CHR ''+''" using oc by auto
  show "digit_char k \<noteq> CHR ''.''" using oc by auto
  show "digit_char k \<noteq> CHR ''/''" using oc by auto
qed

lemma plain_digit_char: "k < 10 \<Longrightarrow> plain_digit (digit_char k)"
  by (simp add: plain_digit_def digit_char_props)

lemma digits_of_plain: "c \<in> set (digits_of n) \<Longrightarrow> plain_digit c"
proof (induction n arbitrary: c rule: digits_of.induct)
  case (1 n)
  show ?case
  proof (cases "n < 10")
    case True
    with "1.prems" show ?thesis
      by (simp add: digits_of.simps [of n] plain_digit_char)
  next
    case False
    with "1.prems" have "c \<in> set (digits_of (n div 10)) \<or> c = digit_char (n mod 10)"
      by (auto simp: digits_of.simps [of n])
    then show ?thesis
      using "1.IH" [OF False] by (auto simp: plain_digit_char)
  qed
qed

lemma digits_of_nonempty: "digits_of n \<noteq> []"
  by (simp add: digits_of.simps [of n])

lemma int_digits_foldl:
  "(\<And>c. c \<in> set ds \<Longrightarrow> is_digit c) \<Longrightarrow> ds \<noteq> [] \<or> prev \<Longrightarrow>
   int_digits acc prev ds = Some (foldl (\<lambda>a c. 10 * a + digit_val c) acc ds)"
  by (induction ds arbitrary: acc prev) auto

lemma foldl_digits_of: "foldl (\<lambda>a c. 10 * a + digit_val c) 0 (digits_of n) = n"
proof (induction n rule: digits_of.induct)
  case (1 n)
  show ?case
  proof (cases "n < 10")
    case True
    then show ?thesis by (simp add: digits_of.simps [of n] digit_char_props)
  next
    case False
    then show ?thesis
      using "1.IH" by (simp add: digits_of.simps [of n] digit_char_props)
  qed
qed

lemma int_digits_digits_of: "int_digits 0 False (digits_of n) = Some n"
  using int_digits_foldl [of "digits_of n" False 0] digits_of_plain [of _ n]
  by (simp add: foldl_digits_of digits_of_nonempty plain_digit_def)

lemma strip_digits_of: "strip (digits_of n) = digits_of n"
proof -
  have "\<And>c. c \<in> set (digits_of n) \<Longrightarrow> \<not> is_space c"
    using digits_of_plain by (simp add: plain_digit_def)
  then have "dropWhile is_space (digits_of n) = digits_of n"
    and "dropWhile is_space (rev (digits_of n)) = rev (digits_of n)"
    by (auto intro: dropWhile_id)
  then show ?thesis by (simp add: strip_def)
qed

lemma int_py_digits_of: "int_py (digits_of n) = Some (int n)"
proof -
  obtain c cs where eq: "digits_of n = c # cs"
    using digits_of_nonempty [of n] by (cases "digits_of n") auto
  have "plain_digit c"
    using digits_of_plain [of c n] eq by simp
  then have "c \<noteq> CHR ''-''" "c \<noteq> CHR ''+''"
    by (auto simp: plain_digit_def)
  moreover have "int_digits 0 False (c # cs) = Some n"
    using int_digits_digits_of [of n] eq by simp
  moreover have "strip (c # cs) = c # cs"
    using strip_digits_of [of n] eq by simp
  ultimately show ?thesis
    unfolding int_py_def eq by (simp del: int_digits.simps)
qed

lemma int_py_str_int: "0 \<le> i \<Longrightarrow> int_py (str_int i) = Some i"
  by (simp add: str_int_def int_py_digits_of)

lemma rsplit1_last:
  assumes "sep \<notin> set tail"
  shows "rsplit1 sep (base @ sep # tail) = [base, tail]"
proof -
  have r: "rev (base @ sep # tail) = rev tail @ sep # rev base" by simp
  have t: "takeWhile (\<lambda>c. c \<noteq> sep) (rev tail @ sep # rev base) = rev tail"
    using assms by (auto simp: takeWhile_tail)
  have d: "dropWhile (\<lambda>c. c \<noteq> sep) (rev tail @ sep # rev base) = sep # rev base"
    using assms by (subst dropWhile_append2) auto
  show ?thesis
    unfolding rsplit1_def r t d by simp
qed

lemma split_on_none: "sep \<notin> set s \<Longrightarrow> split_on sep s = [s]"
  by (induction s) auto

lemma split_on_once:
  "sep \<notin> set a \<Longrightarrow> sep \<notin> set b \<Longrightarrow> split_on sep (a @ sep # b) = [a, b]"
  by (induction a) (auto simp: split_on_none)


lemma str_int_plain: "0 \<le> i \<Longrightarrow> c \<in> set (str_int i) \<Longrightarrow> plain_digit c"
  by (simp add: str_int_def digits_of_plain)

lemma parse_target_try_range:
  assumes slash: "CHR ''/'' \<notin> set base" and lo: "0 \<le> lo" and hi: "0 \<le> hi"
  shows "parse_target_try N A (base @ ''.'' @ str_int lo @ ''-'' @ str_int hi) =
           Inr (map (\<lambda>i. base @ ''.'' @ str_int i @ ''/32'') [lo..hi])"
proof -
  let ?range = "str_int lo @ CHR ''-'' # str_int hi"
  let ?t = "base @ CHR ''.'' # ?range"
  have plo: "\<And>c. c \<in> set (str_int lo) \<Longrightarrow> plain_digit c"
    and phi: "\<And>c. c \<in> set (str_int hi) \<Longrightarrow> plain_digit c"
    using lo hi by (auto intro: str_int_plain)
  have no_slash: "CHR ''/'' \<notin> set ?t"
    using slash plo phi by (auto simp: plain_digit_def)
  have dot: "CHR ''.'' \<notin> set ?range"
    using plo phi by (auto simp: plain_digit_def)
  have dash_lo: "CHR ''-'' \<notin> set (str_int lo)" and dash_hi: "CHR ''-'' \<notin> set (str_int hi)"
    using plo phi by (auto simp: plain_digit_def)
  have r: "rsplit1 CHR ''.'' ?t = [base, ?range]"
    using dot by (rule rsplit1_last)
  have s: "split_on CHR ''-'' ?range = [str_int lo, str_int hi]"
    using dash_lo dash_hi by (rule split_on_once)
  have il: "int_py (str_int lo) = Some lo" and ih: "int_py (str_int hi) = Some hi"
    using lo hi by (simp_all add: int_py_str_int)
  have "parse_target_try N A ?t = Inr (map (\<lambda>i. base @ ''.'' @ str_int i @ ''/32'') [lo..hi])"
    using no_slash dot dash_lo by (simp add: parse_target_try_def r s il ih)
  then show ?thesis by simp
qed

lemma host_strings_distinct:
  assumes "0 \<le> lo"
  shows "distinct (map (\<lambda>i. base @ ''.'' @ str_int i @ ''/32'') [lo..hi])"
proof -
  have "inj_on (\<lambda>i. base @ ''.'' @ str_int i @ ''/32'') (set [lo..hi])"
  proof (rule inj_onI)
    fix i j
    assume i: "i \<in> set [lo..hi]" and j: "j \<in> set [lo..hi]"
      and eq: "base @ ''.'' @ str_int i @ ''/32'' = base @ ''.'' @ str_int j @ ''/32''"
    from eq have "str_int i = str_int j" by simp
    then have "int_py (str_int i) = int_py (str_int j)" by simp
    moreover have "0 \<le> i" "0 \<le> j" using i j assms by auto
    ultimately show "i = j" by (simp add: int_py_str_int)
  qed
  then show ?thesis by (simp add: distinct_map)
qed

lemma dotted3_no_slash:
  "0 \<le> a \<Longrightarrow> 0 \<le> b \<Longrightarrow> 0 \<le> c \<Longrightarrow> CHR ''/'' \<notin> set (dotted3 a b c)"
  using str_int_plain [of a] str_int_plain [of b] str_int_plain [of c]
  by (auto simp: dotted3_def plain_digit_def)


subsection \<open>Range expressions and single addresses\<close>

text \<open>
  Claim C4: for every hyphenated last-octet range \<open>a.b.c.start-end\<close> with decimal octets
  and \<open>0 \<le> start \<le> end \<le> 255\<close>, the parser returns exactly one host entry (a /32 block)
  per integer of \<open>[start, end]\<close>, in order, without repetition, with \<open>a.b.c\<close> kept as
  written; the single literal \<open>10.0.0.5\<close> gives the singleton list when the address library
  accepts it; and \<open>999.1.1.1\<close> gives the empty list, the parser's failure value, when
  the library rejects it: the discovery then raises its \<open>ValueError\<close>, finds no device and
  records the error text "Invalid target format: 999.1.1.1".
\<close>

theorem parse_target_range_and_single:
  "(0 \<le> a \<and> a \<le> 255 \<and> 0 \<le> b \<and> b \<le> 255 \<and> 0 \<le> c \<and> c \<le> 255 \<and>
    0 \<le> start \<and> start \<le> end \<and> end \<le> 255 \<longrightarrow>
      parse_target N A (dotted3 a b c @ ''.'' @ str_int start @ ''-'' @ str_int end)
        = map (\<lambda>i. dotted3 a b c @ ''.'' @ str_int i @ ''/32'') [start..end] \<and>
      distinct (parse_target N A (dotted3 a b c @ ''.'' @ str_int start @ ''-'' @ str_int end)) \<and>
      int (length (parse_target N A (dotted3 a b c @ ''.'' @ str_int start @ ''-'' @ str_int end)))
        = end - start + 1) \<and>
   (A ''10.0.0.5'' \<longrightarrow> parse_target N A ''10.0.0.5'' = [''10.0.0.5/32'']) \<and>
   (\<not> A ''999.1.1.1'' \<longrightarrow> parse_target N A ''999.1.1.1'' = []) \<and>
   (\<not> IPAddress_ok w ''999.1.1.1'' \<longrightarrow>
      fst (fst (discover_network_devices w nm ''999.1.1.1'' options)) = [] \<and>
      md_error (snd (fst (discover_network_devices w nm ''999.1.1.1'' options)))
        = Some ''Invalid target format: 999.1.1.1'')"
proof (intro conjI impI)
  assume h: "0 \<le> a \<and> a \<le> 255 \<and> 0 \<le> b \<and> b \<le> 255 \<and> 0 \<le> c \<and> c \<le> 255 \<and>
    0 \<le> start \<and> start \<le> end \<and> end \<le> 255"
  let ?t = "dotted3 a b c @ ''.'' @ str_int start @ ''-'' @ str_int end"
  have "CHR ''/'' \<notin> set (dotted3 a b c)"
    using h by (simp add: dotted3_no_slash)
  then have "parse_target_try N A ?t =
      Inr (map (\<lambda>i. dotted3 a b c @ ''.'' @ str_int i @ ''/32'') [start..end])"
    using h by (intro parse_target_try_range) auto
  then show eq: "parse_target N A ?t = map (\<lambda>i. dotted3 a b c @ ''.'' @ str_int i @ ''/32'') [start..end]"
    by (simp add: parse_target_def)
  show "distinct (parse_target N A ?t)"
    unfolding eq using h by (intro host_strings_distinct) simp
  show "int (length (parse_target N A ?t)) = end - start + 1"
    unfolding eq using h by simp
next
  assume "A ''10.0.0.5''"
  then show "parse_target N A ''10.0.0.5'' = [''10.0.0.5/32'']"
    by (simp add: parse_target_def parse_target_try_def)
next
  assume "\<not> A ''999.1.1.1''"
  then show "parse_target N A ''999.1.1.1'' = []"
    by (simp add: parse_target_def parse_target_try_def)
next
  assume "\<not> IPAddress_ok w ''999.1.1.1''"
  then have e: "parse_target (IPNetwork_str w) (IPAddress_ok w) ''999.1.1.1'' = []"
    by (simp add: parse_target_def parse_target_try_def)
  show "fst (fst (discover_network_devices w nm ''999.1.1.1'' options)) = []"
    and "md_error (snd (fst (discover_network_devices w nm ''999.1.1.1'' options)))
        = Some ''Invalid target format: 999.1.1.1''"
    by (simp_all add: discover_network_devices_def e)
qed

theorem parse_target_range_and_single_witness:
  "parse_target Some dotted_quad_ok ''10.0.0.1-3''
     = [''10.0.0.1/32'', ''10.0.0.2/32'', ''10.0.0.3/32''] \<and>
   parse_target Some dotted_quad_ok ''10.0.0.5'' = [''10.0.0.5/32''] \<and>
   parse_target Some dotted_quad_ok ''999.1.1.1'' = [] \<and>
   md_error (snd (fst (discover_network_devices dark_world [] ''999.1.1.1'' [])))
     = Some ''Invalid target format: 999.1.1.1''"
proof -
  have t: "dotted3 10 0 0 @ ''.'' @ str_int 1 @ ''-'' @ str_int 3 = ''10.0.0.1-3''"
    by code_simp
  have m: "map (\<lambda>i. dotted3 10 0 0 @ ''.'' @ str_int i @ ''/32'') [1..3]
             = [''10.0.0.1/32'', ''10.0.0.2/32'', ''10.0.0.3/32'']"
    by code_simp
  have ok: "dotted_quad_ok ''10.0.0.5''" and bad: "\<not> dotted_quad_ok ''999.1.1.1''"
    by code_simp+
  have b: "(0::int) \<le> 10 \<and> (10::int) \<le> 255 \<and> (0::int) \<le> 0 \<and> (0::int) \<le> 255 \<and>
           (0::int) \<le> 0 \<and> (0::int) \<le> 255 \<and> (0::int) \<le> 1 \<and> (1::int) \<le> 3 \<and> (3::int) \<le> 255"
    by simp
  have bad': "\<not> IPAddress_ok dark_world ''999.1.1.1''"
    using bad by (simp add: dark_world_def)
  show ?thesis
    using parse_target_range_and_single [of 10 0 0 1 3 Some dotted_quad_ok dark_world "[]" "[]"]
      b ok bad bad'
    unfolding t m by simp
qed

text \<open>
  Claim C3 at the range expression \<open>10.0.0.255-256\<close>, whose upper bound is outside
  0..255: the range branch converts the two bounds and expands them without comparing
  them with 255 and without validating any produced address, so the parser returns two
  entries, one of them for the address 10.0.0.256, instead of failing.
\<close>

theorem parse_target_range_unchecked:
  "parse_target N A ''10.0.0.255-256'' = [''10.0.0.255/32'', ''10.0.0.256/32'']"
  by code_simp


section \<open>Properties of the classifier\<close>

text \<open>
  Claim C2, as stated, at a device that matches both the server and the printer port
  signatures: ports 22 and 631 are open and the hostname is "Core-Router". Port 22 is
  also a router port, so the router rule, which is evaluated before the server rule,
  fires and the result is router, not server.
\<close>

theorem classify_server_printer_counterexample:
  "any_port_in server_ports (open_ports dev_ssh_printer_router) \<and>
   any_port_in printer_ports (open_ports dev_ssh_printer_router) \<and>
   classify_device_type dev_ssh_printer_router = ROUTER"
  by code_simp

text \<open>
  Claim C2, amended: the classifier is an ordered rule chain, first match wins. A device
  whose open ports are {22,80} and whose hostname does not contain "router" is a server;
  one whose open ports are {631} is a printer; one whose open ports are {161} and whose
  hostname does not contain "router" is a switch; one with no open ports is unknown; and
  every device that matches both the server and the printer port signatures, and on which
  the router rule (a router port open and "router" in the hostname) does not fire, is a
  server.
\<close>

theorem classify_rule_chain:
  "(set (open_ports d) = {22, 80} \<and> \<not> router_hostname (hostname d)
      \<longrightarrow> classify_device_type d = SERVER) \<and>
   (set (open_ports d) = {631} \<longrightarrow> classify_device_type d = PRINTER) \<and>
   (set (open_ports d) = {161} \<and> \<not> router_hostname (hostname d)
      \<longrightarrow> classify_device_type d = SWITCH) \<and>
   (set (open_ports d) = {} \<longrightarrow> classify_device_type d = UNKNOWN) \<and>
   (any_port_in server_ports (open_ports d) \<and> any_port_in printer_ports (open_ports d) \<and>
    \<not> (any_port_in router_ports (open_ports d) \<and> router_hostname (hostname d))
      \<longrightarrow> classify_device_type d = SERVER)"
  by (simp add: classify_device_type_def any_port_in_def list_ex_iff
      router_ports_def server_ports_def printer_ports_def workstation_ports_def)

theorem classify_rule_chain_witness:
  "classify_device_type dev_web = SERVER \<and>
   classify_device_type dev_printer = PRINTER \<and>
   classify_device_type dev_snmp = SWITCH \<and>
   classify_device_type dev_silent = UNKNOWN \<and>
   classify_device_type dev_ftp_printer = SERVER"
proof -
  have h1: "set (open_ports dev_web) = {22, 80} \<and> \<not> router_hostname (hostname dev_web)"
    by code_simp
  have h2: "set (open_ports dev_printer) = {631}"
    by (simp add: dev_printer_def new_device_def)
  have h3: "set (open_ports dev_snmp) = {161} \<and> \<not> router_hostname (hostname dev_snmp)"
    by (simp add: dev_snmp_def new_device_def router_hostname_def)
  have h4: "set (open_ports dev_silent) = {}"
    by (simp add: dev_silent_def new_device_def)
  have h5: "any_port_in server_ports (open_ports dev_ftp_printer) \<and>
            any_port_in printer_ports (open_ports dev_ftp_printer) \<and>
            \<not> (any_port_in router_ports (open_ports dev_ftp_printer) \<and>
               router_hostname (hostname dev_ftp_printer))"
    by code_simp
  show ?thesis
    using classify_rule_chain [of dev_web] classify_rule_chain [of dev_printer]
      classify_rule_chain [of dev_snmp] classify_rule_chain [of dev_silent]
      classify_rule_chain [of dev_ftp_printer] h1 h2 h3 h4 h5
    by simp
qed

text \<open>
  Claim C10: for every device the classifier returns one of router, server, printer,
  switch, workstation, unknown (never mobile or iot), and two devices with the same set of
  open ports and the same hostname get the same class, whatever their services, operating
  system, addresses or timestamps are.
\<close>

theorem classify_range_and_frame:
  "classify_device_type d \<in> {ROUTER, SERVER, PRINTER, SWITCH, WORKSTATION, UNKNOWN} \<and>
   classify_device_type d \<notin> {MOBILE, IOT} \<and>
   (set (open_ports d) = set (open_ports d') \<and> hostname d = hostname d'
      \<longrightarrow> classify_device_type d = classify_device_type d')"
  by (simp add: classify_device_type_def any_port_in_def)

theorem classify_range_and_frame_witness:
  "classify_device_type dev_win_a = classify_device_type dev_win_b \<and>
   classify_device_type dev_win_a = WORKSTATION \<and>
   os_name dev_win_a \<noteq> os_name dev_win_b"
proof -
  have h: "set (open_ports dev_win_a) = set (open_ports dev_win_b) \<and>
           hostname dev_win_a = hostname dev_win_b"
    by (auto simp: dev_win_a_def dev_win_b_def new_device_def)
  have w: "classify_device_type dev_win_a = WORKSTATION"
    by code_simp
  have o: "os_name dev_win_a \<noteq> os_name dev_win_b"
    by (simp add: dev_win_a_def dev_win_b_def new_device_def)
  show ?thesis
    using classify_range_and_frame [of dev_win_a dev_win_b] h w o by simp
qed

section \<open>Properties of the document store\<close>

lemma find_one_update_one:
  assumes "\<And>doc. query (change doc) = query doc"
  shows "find_one query (update_one query change collection)
           = map_option change (find_one query collection)"
  using assms by (induction collection) (auto simp: find_one_def)

lemma filter_update_one_length:
  assumes "\<And>doc. query doc \<Longrightarrow> query (change doc)"
  shows "length (filter query (update_one query change collection)) = length (filter query collection)"
  using assms by (induction collection) auto

lemma find_one_Some_iff: "(\<exists>doc. find_one query collection = Some doc) \<longleftrightarrow> (\<exists>doc\<in>set collection. query doc)"
  by (induction collection) (auto simp: find_one_def)

lemma find_one_None_iff: "find_one query collection = None \<longleftrightarrow> (\<forall>doc\<in>set collection. \<not> query doc)"
  by (auto simp: find_one_def find_None_iff)

lemma same_finding_trans:
  "same_finding v a \<Longrightarrow> same_finding v b = same_finding a b"
  by (auto simp: same_finding_def)

lemma records_save_vulnerability:
  "length (records_for_finding (save_vulnerability collection c) v) =
     (if same_finding v c \<and> \<not> (\<exists>doc\<in>set collection. same_finding v doc)
      then 1 else length (records_for_finding collection v))"
proof (cases "find_one (same_finding c) collection")
  case None
  then have no: "\<forall>doc\<in>set collection. \<not> same_finding c doc"
    by (simp add: find_one_None_iff)
  have "same_finding v c \<Longrightarrow> \<forall>doc\<in>set collection. \<not> same_finding v doc"
    using no by (auto simp: same_finding_def)
  then show ?thesis
    using None by (auto simp: save_vulnerability_def insert_one_def records_for_finding_def)
next
  case (Some existing)
  then have "\<exists>doc\<in>set collection. same_finding c doc"
    using find_one_Some_iff [of "same_finding c" collection] by auto
  then have "same_finding v c \<Longrightarrow> \<exists>doc\<in>set collection. same_finding v doc"
    by (auto simp: same_finding_def)
  then show ?thesis
    using Some by (auto simp: save_vulnerability_def)
qed

lemma set_save_vulnerability:
  "set (save_vulnerability collection c) =
     (if \<exists>doc\<in>set collection. same_finding c doc then set collection
      else insert c (set collection))"
proof (cases "find_one (same_finding c) collection")
  case None
  then have "save_vulnerability collection c = collection @ [c]"
    by (simp add: save_vulnerability_def insert_one_def)
  moreover have "\<forall>doc\<in>set collection. \<not> same_finding c doc"
    using None by (simp add: find_one_None_iff)
  ultimately show ?thesis by auto
next
  case (Some existing)
  then have "\<exists>doc\<in>set collection. same_finding c doc"
    using find_one_Some_iff [of "same_finding c" collection] by auto
  then show ?thesis
    using Some by (simp add: save_vulnerability_def)
qed

lemma records_save_vulnerabilities:
  "length (records_for_finding (save_vulnerabilities collection vulns) v) =
     (if \<exists>doc\<in>set collection. same_finding v doc then length (records_for_finding collection v)
      else if \<exists>c\<in>set vulns. same_finding v c then 1 else 0)"
proof (induction vulns arbitrary: collection)
  case Nil
  then show ?case
    by (auto simp: save_vulnerabilities_def records_for_finding_def filter_empty_conv)
next
  case (Cons c vulns)
  have step: "save_vulnerabilities collection (c # vulns)
                = save_vulnerabilities (save_vulnerability collection c) vulns"
    by (simp add: save_vulnerabilities_def)
  have ex: "(\<exists>doc\<in>set (save_vulnerability collection c). same_finding v doc)
              \<longleftrightarrow> (\<exists>doc\<in>set collection. same_finding v doc) \<or> same_finding v c"
    unfolding set_save_vulnerability by (auto simp: same_finding_def)
  show ?case
    unfolding step Cons.IH ex records_save_vulnerability
    by (auto simp: records_for_finding_def filter_empty_conv)
qed

section \<open>Properties of discovery and profiling\<close>

text \<open>
  The engine's call list only grows, and what a scanner method returns does not depend on
  the calls made before.
\<close>

lemma ping_sweep_nm:
  "ping_sweep w nm target = (fst (ping_sweep w [] target), nm @ [NmScan target None ''-sn -T4''])"
  by (simp add: ping_sweep_def Let_def split: sum.splits)

lemma responsive_hosts_nm:
  "responsive_hosts w nm r = (fst (responsive_hosts w [] r), fst (snd (responsive_hosts w [] r)),
      nm @ [NmScan r None ''-sn -T4''])"
  by (simp add: responsive_hosts_def ping_sweep_def Let_def split: sum.splits)

lemma port_scan_device_nm:
  "port_scan_device w nm ip ports scan_type =
     (fst (port_scan_device w [] ip ports scan_type), nm @ [NmScan ip (Some ports) (scan_arguments scan_type)])"
  by (simp add: port_scan_device_def Let_def split: sum.splits option.splits)

lemma detect_os_nm:
  "detect_os w nm ip = (fst (detect_os w [] ip), nm @ [NmScan ip None ''-O -T4''])"
  by (simp add: detect_os_def Let_def split: sum.splits option.splits list.splits)

lemma detect_os_shape:
  "fst (detect_os w [] ip) = Some info \<Longrightarrow>
     \<exists>n a v. info = [(''name'', n), (''accuracy'', a), (''vendor'', v)]"
  by (auto simp: detect_os_def Let_def split: sum.splits option.splits list.splits)


lemma scan_arguments_syn: "scan_arguments ''syn'' = ''-T4 -n -sS''"
  by (simp add: scan_arguments_def)

lemma scan_device_details_try_nm:
  "scan_device_details_try w nm ip options =
     (fst (scan_device_details_try w [] ip options),
      nm @ (case gethostbyaddr w ip of
              LookupRaised e \<Rightarrow> []
            | _ \<Rightarrow> NmScan ip (Some ''1-1000'') ''-T4 -n -sS'' #
                    (if os_detection_enabled options then [NmScan ip None ''-O -T4''] else [])))"
proof -
  define pr where "pr = fst (port_scan_device w [] ip ''1-1000'' ''syn'')"
  define oi where "oi = fst (detect_os w [] ip)"
  have P: "\<And>nm. port_scan_device w nm ip ''1-1000'' ''syn''
                  = (pr, nm @ [NmScan ip (Some ''1-1000'') ''-T4 -n -sS''])"
    unfolding pr_def by (subst port_scan_device_nm) (simp add: scan_arguments_syn)
  have D: "\<And>nm. detect_os w nm ip = (oi, nm @ [NmScan ip None ''-O -T4''])"
    unfolding oi_def by (subst detect_os_nm) simp
  show ?thesis
    by (simp add: scan_device_details_try_def P D Let_def os_detection_enabled_def
        split: host_lookup.splits option.splits)
qed

lemma scan_device_details_nm:
  "fst (scan_device_details w nm ip options) = profiled w options ip"
  unfolding profiled_def scan_device_details_def
  by (subst scan_device_details_try_nm) (simp split: prod.splits sum.splits)

lemma profile_hosts_devices:
  "fst (profile_hosts w options ips devices nm)
     = devices @ List.map_filter (profiled w options) ips"
proof (induction ips arbitrary: devices nm)
  case Nil
  then show ?case by (simp add: map_filter_simps)
next
  case (Cons ip ips)
  obtain r nm' where r: "scan_device_details w nm ip options = (r, nm')"
    by (cases "scan_device_details w nm ip options")
  then have p: "profiled w options ip = r"
    using scan_device_details_nm [of w nm ip options] by simp
  show ?case
    using r p Cons.IH by (cases r) (simp_all add: map_filter_simps)
qed

lemma discover_ranges_devices:
  "fst (discover_ranges w options ranges devices techniques nm)
     = devices @ concat (map (\<lambda>r. List.map_filter (profiled w options) (responsive w r)) ranges)"
proof (induction ranges arbitrary: devices techniques nm)
  case Nil
  then show ?case by simp
next
  case (Cons r ranges)
  obtain hosts used nm1 where h: "responsive_hosts w nm r = (hosts, used, nm1)"
    by (cases "responsive_hosts w nm r") auto
  then have hs: "responsive w r = dict_keys hosts"
    using responsive_hosts_nm [of w nm r] by (simp add: responsive_def)
  obtain devices' nm2 where p: "profile_hosts w options (dict_keys hosts) devices nm1 = (devices', nm2)"
    by (cases "profile_hosts w options (dict_keys hosts) devices nm1")
  then have d: "devices' = devices @ List.map_filter (profiled w options) (dict_keys hosts)"
    using profile_hosts_devices [of w options "dict_keys hosts" devices nm1] by simp
  show ?case
    using h p Cons.IH by (simp add: d hs)
qed

lemma discover_network_devices_devices:
  "fst (fst (discover_network_devices w nm target options))
     = concat (map (\<lambda>r. List.map_filter (profiled w options) (responsive w r))
         (parse_target (IPNetwork_str w) (IPAddress_ok w) target))"
proof (cases "parse_target (IPNetwork_str w) (IPAddress_ok w) target = []")
  case True
  then show ?thesis by (simp add: discover_network_devices_def)
next
  case False
  let ?rs = "parse_target (IPNetwork_str w) (IPAddress_ok w) target"
  obtain devices techniques nm' where d: "discover_ranges w options ?rs [] [] nm = (devices, techniques, nm')"
    by (cases "discover_ranges w options ?rs [] [] nm") auto
  then show ?thesis
    using False discover_ranges_devices [of w options ?rs "[]" "[]" nm]
    by (simp add: discover_network_devices_def Let_def)
qed

subsection \<open>OS detection during profiling\<close>

lemma detect_os_first:
  "nm_scan w (NmScan ip None ''-O -T4'') = Inr hosts \<Longrightarrow> map_of hosts ip = Some host \<Longrightarrow>
   nh_osmatch host = Some (best # others) \<Longrightarrow>
   fst (detect_os w [] ip) =
     Some [(''name'', dict_get_default best ''name'' []),
           (''accuracy'', dict_get_default best ''accuracy'' []),
           (''vendor'', dict_get_default best ''vendor'' [])]"
  by (simp add: detect_os_def Let_def)

lemma os_detection_default: "map_of options ''os_detection'' = None \<Longrightarrow> \<not> os_detection_enabled options"
  by (simp add: os_detection_enabled_def dict_get_default_def)

lemma scan_device_details_try_os:
  assumes "fst (scan_device_details_try w nm ip options) = Inr device"
  shows "os_version device = None"
    and "\<not> os_detection_enabled options \<Longrightarrow> os_name device = None \<and> vendor device = None"
    and "os_detection_enabled options \<Longrightarrow>
         fst (detect_os w [] ip) = Some [(''name'', n), (''accuracy'', a), (''vendor'', v)] \<Longrightarrow>
         os_name device = Some n \<and> vendor device = Some v"
proof -
  define pr where "pr = fst (port_scan_device w [] ip ''1-1000'' ''syn'')"
  define oi where "oi = fst (detect_os w [] ip)"
  have P: "\<And>nm. port_scan_device w nm ip ''1-1000'' ''syn''
                  = (pr, nm @ [NmScan ip (Some ''1-1000'') ''-T4 -n -sS''])"
    unfolding pr_def by (subst port_scan_device_nm) (simp add: scan_arguments_syn)
  have D: "\<And>nm. detect_os w nm ip = (oi, nm @ [NmScan ip None ''-O -T4''])"
    unfolding oi_def by (subst detect_os_nm) simp
  have shape: "oi = None \<or> (\<exists>n a v. oi = Some [(''name'', n), (''accuracy'', a), (''vendor'', v)])"
    using detect_os_shape [of w ip] unfolding oi_def by (cases "fst (detect_os w [] ip)") auto
  have dev: "Inr device = fst (scan_device_details_try w nm ip options)"
    using assms by simp
  show "os_version device = None"
    using dev shape unfolding scan_device_details_try_def
    by (auto simp: P D Let_def dict_get_def new_device_def
        split: host_lookup.splits option.splits port_scan_outcome.splits if_splits)
  show "\<not> os_detection_enabled options \<Longrightarrow> os_name device = None \<and> vendor device = None"
    using dev unfolding scan_device_details_try_def os_detection_enabled_def
    by (auto simp: P D Let_def new_device_def
        split: host_lookup.splits option.splits port_scan_outcome.splits if_splits)
  show "os_detection_enabled options \<Longrightarrow>
         fst (detect_os w [] ip) = Some [(''name'', n), (''accuracy'', a), (''vendor'', v)] \<Longrightarrow>
         os_name device = Some n \<and> vendor device = Some v"
    using dev unfolding scan_device_details_try_def os_detection_enabled_def oi_def [symmetric]
    by (auto simp: P D Let_def dict_get_def new_device_def
        split: host_lookup.splits option.splits port_scan_outcome.splits if_splits)
qed


lemma scan_device_details_try_Inr_lookup:
  "fst (scan_device_details_try w nm ip options) = Inr device \<Longrightarrow>
   gethostbyaddr w ip \<noteq> LookupRaised e"
  by (auto simp: scan_device_details_try_def Let_def)

text \<open>
  Claim C8 on the code: when profiling a host returns a device, the engine was called for
  the port scan and, exactly when the option \<open>os_detection\<close> is truthy (absent counts as
  false), once more for the OS fingerprint; without the option the OS name and vendor stay
  unset; with it they are the name and vendor of the first OS match, whatever the other
  matches are. The OS version of the device is unset in every case: the dictionary built
  from the first match has no \<open>version\<close> key, so the version of the match is not recorded.
\<close>

theorem os_detection_profile:
  "fst (scan_device_details_try w nm ip options) = Inr device \<longrightarrow>
     snd (scan_device_details_try w nm ip options)
       = nm @ NmScan ip (Some ''1-1000'') ''-T4 -n -sS''
              # (if os_detection_enabled options then [NmScan ip None ''-O -T4''] else []) \<and>
     (map_of options ''os_detection'' = None \<longrightarrow> \<not> os_detection_enabled options) \<and>
     (\<not> os_detection_enabled options \<longrightarrow> os_name device = None \<and> vendor device = None) \<and>
     (os_detection_enabled options \<and> nm_scan w (NmScan ip None ''-O -T4'') = Inr hosts \<and>
      map_of hosts ip = Some host \<and> nh_osmatch host = Some (best # others)
        \<longrightarrow> os_name device = Some (dict_get_default best ''name'' []) \<and>
            vendor device = Some (dict_get_default best ''vendor'' [])) \<and>
     os_version device = None"
proof (intro impI conjI)
  assume d: "fst (scan_device_details_try w nm ip options) = Inr device"
  have "\<And>e. gethostbyaddr w ip \<noteq> LookupRaised e"
    using d by (rule scan_device_details_try_Inr_lookup)
  then show "snd (scan_device_details_try w nm ip options)
       = nm @ NmScan ip (Some ''1-1000'') ''-T4 -n -sS''
              # (if os_detection_enabled options then [NmScan ip None ''-O -T4''] else [])"
    by (subst scan_device_details_try_nm) (cases "gethostbyaddr w ip"; auto)
  show "os_version device = None"
    using d by (rule scan_device_details_try_os(1))
  show "os_name device = None" "vendor device = None" if "\<not> os_detection_enabled options"
    using scan_device_details_try_os(2) [OF d that] by simp_all
  show "\<not> os_detection_enabled options" if "map_of options ''os_detection'' = None"
    using that by (rule os_detection_default)
  show "os_name device = Some (dict_get_default best ''name'' [])"
       "vendor device = Some (dict_get_default best ''vendor'' [])"
    if "os_detection_enabled options \<and> nm_scan w (NmScan ip None ''-O -T4'') = Inr hosts \<and>
      map_of hosts ip = Some host \<and> nh_osmatch host = Some (best # others)"
    using scan_device_details_try_os(3) [OF d, of _ "dict_get_default best ''accuracy'' []"]
      detect_os_first [of w ip hosts host best others] that by simp_all
qed

theorem os_detection_profile_witness:
  "(case fst (scan_device_details_try lab_world [] ''10.0.0.1'' [(''os_detection'', PBool True)]) of
      Inl e \<Rightarrow> False
    | Inr device \<Rightarrow> os_name device = Some ''Linux 5.4'' \<and> vendor device = Some ''Linux'' \<and>
                    os_version device = None) \<and>
   snd (scan_device_details_try lab_world [] ''10.0.0.1'' [(''os_detection'', PBool True)])
     = [NmScan ''10.0.0.1'' (Some ''1-1000'') ''-T4 -n -sS'', NmScan ''10.0.0.1'' None ''-O -T4''] \<and>
   map_option (\<lambda>matches. dict_get (hd matches) ''version'') (nh_osmatch lab_host) = Some (Some ''5.4'') \<and>
   (case fst (scan_device_details_try lab_world [] ''10.0.0.1'' []) of
      Inl e \<Rightarrow> False
    | Inr device \<Rightarrow> os_name device = None \<and> vendor device = None \<and> os_version device = None) \<and>
   snd (scan_device_details_try lab_world [] ''10.0.0.1'' [])
     = [NmScan ''10.0.0.1'' (Some ''1-1000'') ''-T4 -n -sS'']"
proof -
  let ?opts = "[(''os_detection'', PBool True)]"
  let ?best = "[(''name'', ''Linux 5.4''), (''version'', ''5.4''), (''vendor'', ''Linux''),
                (''accuracy'', ''98'')]"
  let ?other = "[(''name'', ''FreeBSD 13''), (''version'', ''13''), (''vendor'', ''FreeBSD''),
                 (''accuracy'', ''90'')]"
  have "case fst (scan_device_details_try lab_world [] ''10.0.0.1'' ?opts) of
          Inl e \<Rightarrow> False | Inr device \<Rightarrow> True"
    by code_simp
  then obtain device where
    d: "fst (scan_device_details_try lab_world [] ''10.0.0.1'' ?opts) = Inr device"
    by (cases "fst (scan_device_details_try lab_world [] ''10.0.0.1'' ?opts)") auto
  have "case fst (scan_device_details_try lab_world [] ''10.0.0.1'' []) of
          Inl e \<Rightarrow> False | Inr device \<Rightarrow> True"
    by code_simp
  then obtain plain where
    d0: "fst (scan_device_details_try lab_world [] ''10.0.0.1'' []) = Inr plain"
    by (cases "fst (scan_device_details_try lab_world [] ''10.0.0.1'' [])") auto
  have en: "os_detection_enabled ?opts"
    by code_simp
  have absent: "map_of ([] :: (string \<times> pyval) list) ''os_detection'' = None"
    by simp
  have sc: "nm_scan lab_world (NmScan ''10.0.0.1'' None ''-O -T4'') = Inr [(''10.0.0.1'', lab_host)]"
    by (simp add: lab_world_def dark_world_def lab_engine_def)
  have ho: "map_of [(''10.0.0.1'', lab_host)] ''10.0.0.1'' = Some lab_host"
    by simp
  have om: "nh_osmatch lab_host = Some (?best # [?other])"
    by (simp add: lab_host_def)
  have g: "dict_get_default ?best ''name'' [] = ''Linux 5.4''"
    "dict_get_default ?best ''vendor'' [] = ''Linux''"
    by (simp_all add: dict_get_default_def)
  have v: "map_option (\<lambda>matches. dict_get (hd matches) ''version'') (nh_osmatch lab_host)
             = Some (Some ''5.4'')"
    by (simp add: om dict_get_def)
  note T = os_detection_profile
      [of lab_world "[]" "''10.0.0.1''" ?opts device "[(''10.0.0.1'', lab_host)]" lab_host ?best "[?other]",
       THEN mp, OF d]
  note T0 = os_detection_profile
      [of lab_world "[]" "''10.0.0.1''" "[]" plain "[(''10.0.0.1'', lab_host)]" lab_host ?best "[?other]",
       THEN mp, OF d0]
  have "os_name device = Some ''Linux 5.4'' \<and> vendor device = Some ''Linux''"
    using T en sc ho om g by metis
  moreover have "os_version device = None"
    using T by blast
  moreover have "snd (scan_device_details_try lab_world [] ''10.0.0.1'' ?opts)
     = [NmScan ''10.0.0.1'' (Some ''1-1000'') ''-T4 -n -sS'', NmScan ''10.0.0.1'' None ''-O -T4'']"
    using T en by simp
  moreover have off: "\<not> os_detection_enabled []"
    using T0 absent by blast
  moreover have "os_name plain = None \<and> vendor plain = None \<and> os_version plain = None"
    using T0 off by blast
  moreover have "snd (scan_device_details_try lab_world [] ''10.0.0.1'' [])
     = [NmScan ''10.0.0.1'' (Some ''1-1000'') ''-T4 -n -sS'']"
    using T0 off by simp
  ultimately show ?thesis
    using d d0 v by simp
qed

section \<open>Properties of the scan job\<close>

lemma stored_job_update:
  assumes "\<And>job. sr_id (change job) = sr_id job"
  shows "stored_job (s\<lparr>db_scan_results :=
            update_one (\<lambda>job. sr_id job = scan_id) change (db_scan_results s)\<rparr>) scan_id
         = map_option change (stored_job s scan_id)"
  unfolding stored_job_def using assms
  by (simp add: find_one_update_one)

lemma stored_job_complete_scan:
  "stored_job (complete_scan w s scan_id devices vulnerabilities scan_metadata) scan_id = Some job
   \<Longrightarrow> status job = COMPLETED \<and> devices_discovered job = int (length devices) \<and>
       vulnerabilities_found job = int (length vulnerabilities) \<and>
       completed_at job = Some (utcnow w JobCompleted) \<and>
       (\<exists>before. stored_job s scan_id = Some before \<and> error_message job = error_message before)"
  unfolding complete_scan_def Let_def
  by (subst (asm) stored_job_update) auto

lemma stored_job_other_fields [simp]:
  "stored_job (s\<lparr>db_devices := ds\<rparr>) scan_id = stored_job s scan_id"
  "stored_job (s\<lparr>db_vulnerabilities := vs\<rparr>) scan_id = stored_job s scan_id"
  "stored_job (s\<lparr>nm_calls := nm\<rparr>) scan_id = stored_job s scan_id"
  by (simp_all add: stored_job_def)

lemma stored_job_running:
  "stored_job (job_running w s scan_id) scan_id
     = map_option (\<lambda>job. job\<lparr>status := RUNNING, started_at := utcnow w JobStarted\<rparr>)
         (stored_job s scan_id)"
  unfolding job_running_def by (rule stored_job_update) simp

lemma job_running_fields [simp]:
  "db_devices (job_running w s scan_id) = db_devices s"
  "db_vulnerabilities (job_running w s scan_id) = db_vulnerabilities s"
  "nm_calls (job_running w s scan_id) = nm_calls s"
  by (simp_all add: job_running_def)

lemma run_scan_try_discovery:
  "run_scan_try w s scan_id NETWORK_DISCOVERY target options =
     (None,
      complete_scan w
        ((job_running w s scan_id)
           \<lparr> nm_calls := snd (discover_network_devices w (nm_calls s) target options),
             db_devices := save_devices w (db_devices s)
               (fst (fst (discover_network_devices w (nm_calls s) target options))) \<rparr>)
        scan_id (fst (fst (discover_network_devices w (nm_calls s) target options))) []
        (Some (snd (fst (discover_network_devices w (nm_calls s) target options)))))"
  by (simp add: run_scan_try_def job_running_def Let_def split: prod.splits)

lemma run_scan_try_vulnerability:
  "run_scan_try w s scan_id VULNERABILITY_SCAN target options =
     (case scan_target_devices w options
             (if target = ''all'' then filter is_active (db_devices s)
              else filter (\<lambda>doc. ip_address doc = target) (db_devices s))
             (db_vulnerabilities s) [] of
        (Some e, collection, vulnerabilities) \<Rightarrow>
          (Some e, (job_running w s scan_id)\<lparr>db_vulnerabilities := collection\<rparr>)
      | (None, collection, vulnerabilities) \<Rightarrow>
          (None, complete_scan w ((job_running w s scan_id)\<lparr>db_vulnerabilities := collection\<rparr>)
                   scan_id [] vulnerabilities None))"
  by (simp add: run_scan_try_def job_running_def Let_def split: prod.splits option.splits)

lemma run_scan_try_other:
  "scan_type \<noteq> NETWORK_DISCOVERY \<Longrightarrow> scan_type \<noteq> VULNERABILITY_SCAN \<Longrightarrow>
   run_scan_try w s scan_id scan_type target options
     = (None, complete_scan w (job_running w s scan_id) scan_id [] [] None)"
  by (simp add: run_scan_try_def job_running_def Let_def)

lemma run_scan_try_completes:
  assumes "fst (run_scan_try w s scan_id scan_type target options) = None"
  shows "\<exists>s' devices vulnerabilities scan_metadata.
           snd (run_scan_try w s scan_id scan_type target options)
             = complete_scan w s' scan_id devices vulnerabilities scan_metadata \<and>
           stored_job s' scan_id = stored_job (job_running w s scan_id) scan_id"
proof -
  consider (d) "scan_type = NETWORK_DISCOVERY" | (v) "scan_type = VULNERABILITY_SCAN"
    | (o) "scan_type \<noteq> NETWORK_DISCOVERY" "scan_type \<noteq> VULNERABILITY_SCAN"
    by blast
  then show ?thesis
  proof cases
    case d
    show ?thesis
      unfolding d run_scan_try_discovery snd_conv
      by (intro exI conjI, rule refl) simp
  next
    case v
    obtain r collection vulnerabilities where
      t: "scan_target_devices w options
             (if target = ''all'' then filter is_active (db_devices s)
              else filter (\<lambda>doc. ip_address doc = target) (db_devices s))
             (db_vulnerabilities s) [] = (r, collection, vulnerabilities)"
      using prod_cases3 by blast
    have "r = None"
      using assms t unfolding v run_scan_try_vulnerability by (cases r) simp_all
    then show ?thesis
      unfolding v run_scan_try_vulnerability t
      by simp (intro exI conjI, rule refl, simp)
  next
    case o
    show ?thesis
      unfolding run_scan_try_other [OF o] snd_conv
      by (intro exI conjI, rule refl) simp
  qed
qed

lemma run_scan_try_raises:
  assumes "fst (run_scan_try w s scan_id scan_type target options) = Some e"
  shows "stored_job (snd (run_scan_try w s scan_id scan_type target options)) scan_id
           = stored_job (job_running w s scan_id) scan_id"
proof -
  have v: "scan_type = VULNERABILITY_SCAN"
    using assms run_scan_try_discovery [of w s scan_id target options]
      run_scan_try_other [of scan_type w s scan_id target options]
    by (cases "scan_type = NETWORK_DISCOVERY"; cases "scan_type = VULNERABILITY_SCAN") auto
  obtain r collection vulnerabilities where
    t: "scan_target_devices w options
           (if target = ''all'' then filter is_active (db_devices s)
            else filter (\<lambda>doc. ip_address doc = target) (db_devices s))
           (db_vulnerabilities s) [] = (r, collection, vulnerabilities)"
    using prod_cases3 by blast
  have "r = Some e"
    using assms t unfolding v run_scan_try_vulnerability by (cases r) simp_all
  then show ?thesis
    unfolding v run_scan_try_vulnerability t by simp
qed

lemma run_scan_stored_job:
  "stored_job (run_scan w s scan_id scan_type target options) scan_id = Some job \<Longrightarrow>
     (fst (run_scan_try w s scan_id scan_type target options) = None \<and> status job = COMPLETED) \<or>
     (\<exists>e. fst (run_scan_try w s scan_id scan_type target options) = Some e \<and>
          status job = FAILED \<and> error_message job = Some (str_exc e) \<and>
          completed_at job = Some (utcnow w JobFailed))"
proof (cases "fst (run_scan_try w s scan_id scan_type target options)")
  case None
  assume j: "stored_job (run_scan w s scan_id scan_type target options) scan_id = Some job"
  have r: "run_scan w s scan_id scan_type target options
             = snd (run_scan_try w s scan_id scan_type target options)"
    using None by (cases "run_scan_try w s scan_id scan_type target options") (simp add: run_scan_def)
  obtain s' devices vulnerabilities scan_metadata where
    "snd (run_scan_try w s scan_id scan_type target options)
       = complete_scan w s' scan_id devices vulnerabilities scan_metadata"
    using run_scan_try_completes [OF None] by blast
  then have "status job = COMPLETED"
    using j r stored_job_complete_scan by metis
  then show ?thesis using None by simp
next
  case (Some e)
  assume j: "stored_job (run_scan w s scan_id scan_type target options) scan_id = Some job"
  let ?s' = "snd (run_scan_try w s scan_id scan_type target options)"
  let ?fail = "\<lambda>job. job\<lparr>status := FAILED, completed_at := Some (utcnow w JobFailed),
                          error_message := Some (str_exc e)\<rparr>"
  have r: "run_scan w s scan_id scan_type target options
             = ?s'\<lparr>db_scan_results :=
                    update_one (\<lambda>job. sr_id job = scan_id) ?fail (db_scan_results ?s')\<rparr>"
    using Some by (cases "run_scan_try w s scan_id scan_type target options") (simp add: run_scan_def)
  have "stored_job (run_scan w s scan_id scan_type target options) scan_id
          = map_option ?fail (stored_job ?s' scan_id)"
    unfolding r by (rule stored_job_update) simp
  then have "status job = FAILED \<and> error_message job = Some (str_exc e) \<and>
             completed_at job = Some (utcnow w JobFailed)"
    using j by (cases "stored_job ?s' scan_id") auto
  then show ?thesis using Some by simp
qed

lemma save_vulnerabilities_append:
  "save_vulnerabilities collection (a @ b)
     = save_vulnerabilities (save_vulnerabilities collection a) b"
  by (simp add: save_vulnerabilities_def)

lemma scan_target_devices_saves:
  "scan_target_devices w options targets collection found = (r, collection', found') \<Longrightarrow>
     \<exists>new. found' = found @ new \<and> collection' = save_vulnerabilities collection new"
proof (induction targets arbitrary: collection found)
  case Nil
  then show ?case by (auto simp: save_vulnerabilities_def)
next
  case (Cons device rest)
  show ?case
  proof (cases "scan_device_vulnerabilities w device options")
    case (Inl e)
    with Cons.prems show ?thesis by (auto simp: save_vulnerabilities_def)
  next
    case (Inr device_vulns)
    with Cons.prems have
      "scan_target_devices w options rest (save_vulnerabilities collection device_vulns)
         (found @ device_vulns) = (r, collection', found')"
      by simp
    from Cons.IH [OF this] obtain new where
      "found' = (found @ device_vulns) @ new"
      "collection' = save_vulnerabilities (save_vulnerabilities collection device_vulns) new"
      by blast
    then show ?thesis
      by (intro exI [where x = "device_vulns @ new"]) (simp add: save_vulnerabilities_append)
  qed
qed

lemma db_vulnerabilities_complete_scan [simp]:
  "db_vulnerabilities (complete_scan w s scan_id devices vulnerabilities md) = db_vulnerabilities s"
  by (simp add: complete_scan_def Let_def)

lemma run_scan_try_saves:
  "\<exists>new. db_vulnerabilities (snd (run_scan_try w s scan_id scan_type target options))
            = save_vulnerabilities (db_vulnerabilities s) new"
proof -
  consider (d) "scan_type = NETWORK_DISCOVERY" | (v) "scan_type = VULNERABILITY_SCAN"
    | (o) "scan_type \<noteq> NETWORK_DISCOVERY" "scan_type \<noteq> VULNERABILITY_SCAN"
    by blast
  then show ?thesis
  proof cases
    case d
    show ?thesis
      unfolding d run_scan_try_discovery
      by (intro exI [where x = "[]"]) (simp add: save_vulnerabilities_def)
  next
    case v
    obtain r collection vulnerabilities where
      t: "scan_target_devices w options
             (if target = ''all'' then filter is_active (db_devices s)
              else filter (\<lambda>doc. ip_address doc = target) (db_devices s))
             (db_vulnerabilities s) [] = (r, collection, vulnerabilities)"
      using prod_cases3 by blast
    from scan_target_devices_saves [OF t] obtain new where
      "collection = save_vulnerabilities (db_vulnerabilities s) new" by blast
    then show ?thesis
      unfolding v run_scan_try_vulnerability t
      by (cases r) auto
  next
    case o
    show ?thesis
      unfolding run_scan_try_other [OF o]
      by (intro exI [where x = "[]"]) (simp add: save_vulnerabilities_def)
  qed
qed

lemma run_scan_saves:
  "\<exists>new. db_vulnerabilities (run_scan w s scan_id scan_type target options)
            = save_vulnerabilities (db_vulnerabilities s) new"
proof -
  have "db_vulnerabilities (run_scan w s scan_id scan_type target options)
          = db_vulnerabilities (snd (run_scan_try w s scan_id scan_type target options))"
    by (cases "run_scan_try w s scan_id scan_type target options")
       (auto simp: run_scan_def split: option.splits)
  then show ?thesis
    using run_scan_try_saves [of w s scan_id scan_type target options] by simp
qed


subsection \<open>Saving vulnerabilities\<close>

text \<open>
  Claim C5: saving candidates into the vulnerability collection never adds a second
  record for a finding (device identity, title, port). After any list of candidates has
  been saved, the number of records for a finding is what it was when the collection
  already had one, and otherwise one or zero, as some candidate has that key or none; in
  particular two candidates with the same key, saved into a collection with at most one
  record for it, leave exactly one. A whole scan job, of any kind and whether it completes
  or fails, never raises the number of records for a finding above one or above what it
  was.
\<close>

theorem vulnerability_dedup:
  "length (records_for_finding (save_vulnerabilities collection vulns) v) =
     (if \<exists>doc\<in>set collection. same_finding v doc then length (records_for_finding collection v)
      else if \<exists>c\<in>set vulns. same_finding v c then 1 else 0) \<and>
   (same_finding v1 v2 \<and> length (records_for_finding collection v1) \<le> 1 \<longrightarrow>
      length (records_for_finding (save_vulnerabilities collection [v1, v2]) v1) = 1) \<and>
   length (records_for_finding
             (db_vulnerabilities (run_scan w s scan_id scan_type target options)) v)
     \<le> max 1 (length (records_for_finding (db_vulnerabilities s) v))"
proof (intro conjI impI)
  show "length (records_for_finding (save_vulnerabilities collection vulns) v) =
     (if \<exists>doc\<in>set collection. same_finding v doc then length (records_for_finding collection v)
      else if \<exists>c\<in>set vulns. same_finding v c then 1 else 0)"
    by (rule records_save_vulnerabilities)
next
  assume h: "same_finding v1 v2 \<and> length (records_for_finding collection v1) \<le> 1"
  have self: "same_finding v1 v1" by (simp add: same_finding_def)
  have pos: "(\<exists>doc\<in>set collection. same_finding v1 doc) \<Longrightarrow>
             length (records_for_finding collection v1) = 1"
  proof -
    assume "\<exists>doc\<in>set collection. same_finding v1 doc"
    then have "records_for_finding collection v1 \<noteq> []"
      by (auto simp: records_for_finding_def filter_empty_conv)
    then have "0 < length (records_for_finding collection v1)" by simp
    with h show ?thesis by linarith
  qed
  show "length (records_for_finding (save_vulnerabilities collection [v1, v2]) v1) = 1"
    unfolding records_save_vulnerabilities using h self pos by auto
next
  obtain new where
    "db_vulnerabilities (run_scan w s scan_id scan_type target options)
       = save_vulnerabilities (db_vulnerabilities s) new"
    using run_scan_saves by blast
  then show "length (records_for_finding
             (db_vulnerabilities (run_scan w s scan_id scan_type target options)) v)
     \<le> max 1 (length (records_for_finding (db_vulnerabilities s) v))"
    by (simp add: records_save_vulnerabilities)
qed

theorem vulnerability_dedup_witness:
  "map vuln_id (save_vulnerabilities [] [weak_ssh, weak_ssh_again]) = [''v-1''] \<and>
   length (records_for_finding (save_vulnerabilities [] [weak_ssh, weak_ssh_again]) weak_ssh) = 1 \<and>
   map vuln_id (save_vulnerabilities [] [weak_ssh, open_telnet, weak_ssh_again]) = [''v-1'', ''v-3'']"
proof -
  have m3: "map vuln_id (save_vulnerabilities [] [weak_ssh, open_telnet, weak_ssh_again])
              = [''v-1'', ''v-3'']"
    by code_simp
  have h: "same_finding weak_ssh weak_ssh_again \<and> length (records_for_finding [] weak_ssh) \<le> 1"
    by (simp add: same_finding_def weak_ssh_again_def records_for_finding_def)
  have m: "map vuln_id (save_vulnerabilities [] [weak_ssh, weak_ssh_again]) = [''v-1'']"
    by code_simp
  show ?thesis
    using vulnerability_dedup [of "[]" "[weak_ssh, weak_ssh_again]" weak_ssh weak_ssh weak_ssh_again] h m m3
    by simp
qed

subsection \<open>Saving devices\<close>

text \<open>
  Claim C1 on the code: when the collection already holds a record for the address of a
  discovered device, saving the device keeps the number of records for that address, and
  the first of them becomes the newly profiled device, with \<open>updated_at\<close> read from the
  clock. Every other field, the identity and \<open>first_discovered\<close> among them, is the one
  of the rediscovery, since the update sets all of \<open>device.dict()\<close>: the identity and the
  first-discovery time of the stored record are not kept.
\<close>

theorem save_device_replaces_record:
  assumes "find_one (\<lambda>doc. ip_address doc = ip_address device) collection = Some existing"
  shows "find_one (\<lambda>doc. ip_address doc = ip_address device) (save_device w collection device)
           = Some (device\<lparr>updated_at := utcnow w (DeviceMerged (ip_address device))\<rparr>)
         \<and> length (records_for_ip (save_device w collection device) (ip_address device))
           = length (records_for_ip collection (ip_address device))"
proof -
  let ?q = "\<lambda>doc. ip_address doc = ip_address device"
  let ?new = "device\<lparr>updated_at := utcnow w (DeviceMerged (ip_address device))\<rparr>"
  have s: "save_device w collection device = update_one ?q (\<lambda>doc. ?new) collection"
    using assms by (simp add: save_device_def)
  have "find_one ?q (update_one ?q (\<lambda>doc. ?new) collection) = Some ?new"
    using assms by (induction collection) (auto simp: find_one_def)
  moreover have "length (filter ?q (update_one ?q (\<lambda>doc. ?new) collection)) = length (filter ?q collection)"
    by (rule filter_update_one_length) simp
  ultimately show ?thesis
    by (simp add: s records_for_ip_def)
qed

theorem save_device_replaces_record_witness:
  "save_devices dark_world [] [first_sight, second_sight] = [second_sight\<lparr>updated_at := 130\<rparr>] \<and>
   dev_id second_sight \<noteq> dev_id first_sight \<and>
   first_discovered second_sight \<noteq> first_discovered first_sight"
proof -
  have a: "save_devices dark_world [] [first_sight, second_sight]
             = save_device dark_world [first_sight] second_sight"
    by (simp add: save_devices_def save_device_def find_one_def insert_one_def)
  have h: "find_one (\<lambda>doc. ip_address doc = ip_address second_sight) [first_sight] = Some first_sight"
    by (simp add: find_one_def first_sight_def second_sight_def new_device_def)
  have t: "utcnow dark_world (DeviceMerged (ip_address second_sight)) = 130"
    by (simp add: dark_world_def clock_def)
  have one: "\<And>xs y. length xs = 1 \<Longrightarrow> find_one (\<lambda>doc. ip_address doc = ip_address second_sight) xs = Some y \<Longrightarrow> xs = [y]"
    by (case_tac xs) (auto simp: find_one_def split: if_splits)
  have l: "length (save_device dark_world [first_sight] second_sight) = 1"
    using h by (simp add: save_device_def)
  have d: "dev_id second_sight \<noteq> dev_id first_sight"
    "first_discovered second_sight \<noteq> first_discovered first_sight"
    by (simp_all add: first_sight_def second_sight_def new_device_def)
  show ?thesis
    using save_device_replaces_record [OF h, of dark_world] one [OF l] d
    unfolding a t by simp
qed

subsection \<open>Discovery jobs\<close>

lemma run_scan_discovery_job:
  assumes "stored_job s scan_id = Some job"
  shows "\<exists>job'. stored_job (run_scan w s scan_id NETWORK_DISCOVERY target options) scan_id = Some job' \<and>
           status job' = COMPLETED \<and>
           devices_discovered job'
             = int (length (fst (fst (discover_network_devices w (nm_calls s) target options)))) \<and>
           error_message job' = error_message job"
proof -
  let ?d = "discover_network_devices w (nm_calls s) target options"
  let ?s1 = "(job_running w s scan_id)
           \<lparr> nm_calls := snd ?d, db_devices := save_devices w (db_devices s) (fst (fst ?d)) \<rparr>"
  have r: "run_scan w s scan_id NETWORK_DISCOVERY target options
             = complete_scan w ?s1 scan_id (fst (fst ?d)) [] (Some (snd (fst ?d)))"
    by (simp add: run_scan_def run_scan_try_discovery)
  have j1: "stored_job ?s1 scan_id
              = Some (job\<lparr>status := RUNNING, started_at := utcnow w JobStarted\<rparr>)"
    using assms by (simp add: stored_job_running)
  have "\<exists>job'. stored_job (complete_scan w ?s1 scan_id (fst (fst ?d)) [] (Some (snd (fst ?d)))) scan_id
                 = Some job'"
    unfolding complete_scan_def Let_def
    by (subst stored_job_update) (simp_all add: stored_job_running assms)
  then obtain job' where
    j': "stored_job (complete_scan w ?s1 scan_id (fst (fst ?d)) [] (Some (snd (fst ?d)))) scan_id
           = Some job'" by blast
  from stored_job_complete_scan [OF j'] j1 have
    "status job' = COMPLETED \<and> devices_discovered job' = int (length (fst (fst ?d))) \<and>
     error_message job' = error_message job"
    by auto
  then show ?thesis
    using j' r by simp
qed

lemma responsive_failures:
  assumes "nm_scan w (NmScan r None ''-sn -T4'') = Inl e1" and "arp_a w = Inl e2"
  shows "responsive w r = []"
  using assms
  by (simp add: responsive_def responsive_hosts_def ping_sweep_def arp_scan_def Let_def
      dict_update_def dict_keys_def)

text \<open>
  Claim C6: a discovery job whose blocks have no responsive host ends with the stored job
  record in status completed and \<open>devices_discovered = 0\<close>, with no error text added;
  and when both the ping sweep and the ARP lookup of a block raise, the responsive set of
  that block is empty, so that case is one of them.
\<close>

theorem discovery_without_hosts_completes:
  "(stored_job s scan_id = Some job \<and>
    (\<forall>r\<in>set (parse_target (IPNetwork_str w) (IPAddress_ok w) target). responsive w r = [])
      \<longrightarrow> (\<exists>job'. stored_job (run_scan w s scan_id NETWORK_DISCOVERY target options) scan_id
                      = Some job' \<and>
                  status job' = COMPLETED \<and> devices_discovered job' = 0 \<and>
                  error_message job' = error_message job)) \<and>
   ((\<exists>e. nm_scan w (NmScan r None ''-sn -T4'') = Inl e) \<and> (\<exists>e. arp_a w = Inl e)
      \<longrightarrow> responsive w r = [])"
proof (intro conjI impI)
  assume h: "stored_job s scan_id = Some job \<and>
    (\<forall>r\<in>set (parse_target (IPNetwork_str w) (IPAddress_ok w) target). responsive w r = [])"
  then have "fst (fst (discover_network_devices w (nm_calls s) target options)) = []"
    by (simp add: discover_network_devices_devices)
  then show "\<exists>job'. stored_job (run_scan w s scan_id NETWORK_DISCOVERY target options) scan_id
                      = Some job' \<and>
                  status job' = COMPLETED \<and> devices_discovered job' = 0 \<and>
                  error_message job' = error_message job"
    using run_scan_discovery_job [of s scan_id job w target options] h by simp
next
  assume "(\<exists>e. nm_scan w (NmScan r None ''-sn -T4'') = Inl e) \<and> (\<exists>e. arp_a w = Inl e)"
  then show "responsive w r = []"
    using responsive_failures by blast
qed

theorem discovery_without_hosts_completes_witness:
  "map_option status
     (stored_job (run_scan dark_world backend_with_device ''job-1'' NETWORK_DISCOVERY
        ''10.0.0.0/29'' []) ''job-1'') = Some COMPLETED \<and>
   map_option devices_discovered
     (stored_job (run_scan dark_world backend_with_device ''job-1'' NETWORK_DISCOVERY
        ''10.0.0.0/29'' []) ''job-1'') = Some 0 \<and>
   responsive dark_world ''10.0.0.0/29'' = []"
proof -
  have j: "stored_job backend_with_device ''job-1'' = Some job1"
    by code_simp
  have p: "parse_target (IPNetwork_str dark_world) (IPAddress_ok dark_world) ''10.0.0.0/29''
             = [''10.0.0.0/29'']"
    by code_simp
  have f: "(\<exists>e. nm_scan dark_world (NmScan ''10.0.0.0/29'' None ''-sn -T4'') = Inl e) \<and>
           (\<exists>e. arp_a dark_world = Inl e)"
    by (simp add: dark_world_def)
  have e: "responsive dark_world ''10.0.0.0/29'' = []"
    using discovery_without_hosts_completes
      [of backend_with_device "''job-1''" job1 dark_world "''10.0.0.0/29''" "[]" "''10.0.0.0/29''"] f
    by blast
  have h: "stored_job backend_with_device ''job-1'' = Some job1 \<and>
    (\<forall>r\<in>set (parse_target (IPNetwork_str dark_world) (IPAddress_ok dark_world) ''10.0.0.0/29'').
        responsive dark_world r = [])"
    using j e unfolding p by simp
  show ?thesis
    using discovery_without_hosts_completes
      [of backend_with_device "''job-1''" job1 dark_world "''10.0.0.0/29''" "[]" "''10.0.0.0/29''"] h e
    by auto
qed

text \<open>
  Claim C9: a host whose profiling raises has no device (\<open>_scan_device_details\<close> returns
  \<open>None\<close>); the devices of a discovery are, block by block and host by host in order, the
  devices of the responsive hosts that have one, so a host without a device is left out
  and the hosts before and after it are kept; and the discovery job of a stored job record
  ends in status completed, counting exactly those devices, whatever the profiling of any
  host did.
\<close>

theorem profiling_failure_omits_host:
  "(fst (scan_device_details_try w nm ip options) = Inl e
      \<longrightarrow> fst (scan_device_details w nm ip options) = None \<and> profiled w options ip = None) \<and>
   fst (fst (discover_network_devices w nm target options))
     = concat (map (\<lambda>r. List.map_filter (profiled w options) (responsive w r))
         (parse_target (IPNetwork_str w) (IPAddress_ok w) target)) \<and>
   (profiled w options ip = None
      \<longrightarrow> List.map_filter (profiled w options) (before @ ip # after)
            = List.map_filter (profiled w options) before
              @ List.map_filter (profiled w options) after) \<and>
   (stored_job s scan_id = Some job
      \<longrightarrow> (\<exists>job'. stored_job (run_scan w s scan_id NETWORK_DISCOVERY target options) scan_id
                      = Some job' \<and>
                  status job' = COMPLETED \<and>
                  devices_discovered job'
                    = int (length (concat (map (\<lambda>r. List.map_filter (profiled w options)
                                                      (responsive w r))
                             (parse_target (IPNetwork_str w) (IPAddress_ok w) target))))))"
proof (intro conjI impI)
  assume "fst (scan_device_details_try w nm ip options) = Inl e"
  then have "fst (scan_device_details w nm ip options) = None"
    by (cases "scan_device_details_try w nm ip options") (simp add: scan_device_details_def)
  then show "fst (scan_device_details w nm ip options) = None"
    and "profiled w options ip = None"
    using scan_device_details_nm [of w nm ip options] by simp_all
next
  show "fst (fst (discover_network_devices w nm target options))
     = concat (map (\<lambda>r. List.map_filter (profiled w options) (responsive w r))
         (parse_target (IPNetwork_str w) (IPAddress_ok w) target))"
    by (rule discover_network_devices_devices)
next
  assume "profiled w options ip = None"
  then show "List.map_filter (profiled w options) (before @ ip # after)
            = List.map_filter (profiled w options) before
              @ List.map_filter (profiled w options) after"
    by (simp add: List.map_filter_def)
next
  assume "stored_job s scan_id = Some job"
  from run_scan_discovery_job [OF this, of w target options]
  show "\<exists>job'. stored_job (run_scan w s scan_id NETWORK_DISCOVERY target options) scan_id
                      = Some job' \<and>
                  status job' = COMPLETED \<and>
                  devices_discovered job'
                    = int (length (concat (map (\<lambda>r. List.map_filter (profiled w options)
                                                      (responsive w r))
                             (parse_target (IPNetwork_str w) (IPAddress_ok w) target))))"
    by (auto simp: discover_network_devices_devices)
qed

theorem profiling_failure_omits_host_witness:
  "responsive lab_world ''10.0.0.0/29'' = [''10.0.0.1'', ''10.0.0.2''] \<and>
   fst (scan_device_details_try lab_world [] ''10.0.0.2'' []) = Inl (PyException ''timed out'') \<and>
   map ip_address (fst (fst (discover_network_devices lab_world [] ''10.0.0.0/29'' [])))
     = [''10.0.0.1''] \<and>
   map_option status
     (stored_job (run_scan lab_world backend_with_device ''job-1'' NETWORK_DISCOVERY
        ''10.0.0.0/29'' []) ''job-1'') = Some COMPLETED \<and>
   map_option devices_discovered
     (stored_job (run_scan lab_world backend_with_device ''job-1'' NETWORK_DISCOVERY
        ''10.0.0.0/29'' []) ''job-1'') = Some 1"
proof -
  have r: "responsive lab_world ''10.0.0.0/29'' = [''10.0.0.1'', ''10.0.0.2'']"
    by code_simp
  have p: "parse_target (IPNetwork_str lab_world) (IPAddress_ok lab_world) ''10.0.0.0/29''
             = [''10.0.0.0/29'']"
    by code_simp
  have x: "fst (scan_device_details_try lab_world [] ''10.0.0.2'' []) = Inl (PyException ''timed out'')"
    by code_simp
  have one: "map ip_address (List.map_filter (profiled lab_world []) [''10.0.0.1'']) = [''10.0.0.1'']"
    by code_simp
  have j: "stored_job backend_with_device ''job-1'' = Some job1"
    by code_simp
  note T = profiling_failure_omits_host
      [of lab_world "[]" "''10.0.0.2''" "[]" "PyException ''timed out''" "''10.0.0.0/29''"
          "[''10.0.0.1'']" "[]" backend_with_device "''job-1''" job1]
  define kept where "kept = List.map_filter (profiled lab_world []) [''10.0.0.1'']"
  have nil: "List.map_filter (profiled lab_world []) [] = []"
    by simp
  have none: "profiled lab_world [] ''10.0.0.2'' = None"
    using T [THEN conjunct1] x by blast
  have "List.map_filter (profiled lab_world []) ([''10.0.0.1''] @ ''10.0.0.2'' # [])
          = kept @ List.map_filter (profiled lab_world []) []"
    unfolding kept_def using T [THEN conjunct2, THEN conjunct2, THEN conjunct1] none by blast
  then have split: "List.map_filter (profiled lab_world []) [''10.0.0.1'', ''10.0.0.2''] = kept"
    by (simp only: nil append_Nil2 append.simps)
  have c: "concat (map (\<lambda>r. List.map_filter (profiled lab_world []) (responsive lab_world r))
             [''10.0.0.0/29'']) = kept"
    by (simp only: r split list.map concat.simps append_Nil2)
  have d: "fst (fst (discover_network_devices lab_world [] ''10.0.0.0/29'' [])) = kept"
    using T [THEN conjunct2, THEN conjunct1] unfolding p c .
  have k: "map ip_address kept = [''10.0.0.1'']"
    unfolding kept_def by (rule one)
  then have l: "length kept = 1"
    by (metis length_map length_Cons list.size(3) One_nat_def)
  obtain job' where
    "stored_job (run_scan lab_world backend_with_device ''job-1'' NETWORK_DISCOVERY
        ''10.0.0.0/29'' []) ''job-1'' = Some job'" "status job' = COMPLETED"
    "devices_discovered job' = int (length kept)"
    using T [THEN conjunct2, THEN conjunct2, THEN conjunct2] j unfolding p c by blast
  then show ?thesis
    using r x d k l by simp
qed

subsection \<open>Failed jobs\<close>

text \<open>
  Claim C7, as stated, at a vulnerability scan whose scanner raises an exception with an
  empty message (as \<open>str(asyncio.TimeoutError())\<close> is): the job ends in status failed and
  its error text is the empty string.
\<close>

theorem failed_job_empty_error_counterexample:
  "map_option status
     (stored_job (run_scan timeout_world backend_with_device ''job-2'' VULNERABILITY_SCAN
        ''all'' []) ''job-2'') = Some FAILED \<and>
   map_option error_message
     (stored_job (run_scan timeout_world backend_with_device ''job-2'' VULNERABILITY_SCAN
        ''all'' []) ''job-2'') = Some (Some [])"
  by code_simp

text \<open>
  Claim C7, amended: whenever the stored record of a job is in status failed after
  \<open>run_scan\<close>, an exception left the job's \<open>try\<close> block, the record's error text is that
  exception's message verbatim (so it is non-empty when the message is), and the record
  has the completion time read by the handler.
\<close>

theorem failed_job_error_text:
  "stored_job (run_scan w s scan_id scan_type target options) scan_id = Some job \<and>
   status job = FAILED
     \<longrightarrow> (\<exists>e. fst (run_scan_try w s scan_id scan_type target options) = Some e \<and>
              error_message job = Some (str_exc e) \<and>
              (str_exc e \<noteq> [] \<longrightarrow> error_message job \<noteq> Some [])) \<and>
         completed_at job = Some (utcnow w JobFailed)"
proof
  assume h: "stored_job (run_scan w s scan_id scan_type target options) scan_id = Some job \<and>
   status job = FAILED"
  then show "(\<exists>e. fst (run_scan_try w s scan_id scan_type target options) = Some e \<and>
              error_message job = Some (str_exc e) \<and>
              (str_exc e \<noteq> [] \<longrightarrow> error_message job \<noteq> Some [])) \<and>
         completed_at job = Some (utcnow w JobFailed)"
    using run_scan_stored_job [of w s scan_id scan_type target options job] by auto
qed

theorem failed_job_error_text_witness:
  "map_option status
     (stored_job (run_scan refusing_world backend_with_device ''job-2'' VULNERABILITY_SCAN
        ''all'' []) ''job-2'') = Some FAILED \<and>
   map_option error_message
     (stored_job (run_scan refusing_world backend_with_device ''job-2'' VULNERABILITY_SCAN
        ''all'' []) ''job-2'') = Some (Some ''probe refused'') \<and>
   map_option completed_at
     (stored_job (run_scan refusing_world backend_with_device ''job-2'' VULNERABILITY_SCAN
        ''all'' []) ''job-2'') = Some (Some 141)"
proof -
  let ?r = "run_scan refusing_world backend_with_device ''job-2'' VULNERABILITY_SCAN ''all'' []"
  obtain job where j: "stored_job ?r ''job-2'' = Some job" and f: "status job = FAILED"
  proof -
    have "map_option status (stored_job ?r ''job-2'') = Some FAILED"
      by code_simp
    then show ?thesis
      using that by (cases "stored_job ?r ''job-2''") auto
  qed
  have e: "fst (run_scan_try refusing_world backend_with_device ''job-2'' VULNERABILITY_SCAN ''all'' [])
             = Some (PyException ''probe refused'')"
    by code_simp
  have t: "utcnow refusing_world JobFailed = 141"
    by code_simp
  show ?thesis
    using failed_job_error_text
      [of refusing_world backend_with_device "''job-2''" VULNERABILITY_SCAN "''all''" "[]" job]
      j f e t
    by auto
qed

end
